theory Spec2Isabelle
  imports Main
begin

section \<open>JavaScript values\<close>

text \<open>
  The values that travel through the client: request and response bodies, and the
  \<open>access\<close> field of the refresh response. A number is carried by its rendering
  \<open>String(n)\<close> (for example \<open>''72.5''\<close>): the code never computes with numbers, it only
  passes them on or interpolates them into a string. An object is its list of own
  properties, all of them data (as in a parsed JSON body); the first binding of a name
  is the one a lookup finds.
\<close>

datatype json =
    JUndefined
  | JNull
  | JBool bool
  | JNum string
  | JStr string
  | JArr "json list"
  | JObj "(string \<times> json) list"

text \<open>JavaScript truthiness, as tested by \<open>if (v)\<close>, \<open>!v\<close> and \<open>v || d\<close>.\<close>

fun truthy :: "json \<Rightarrow> bool" where
  "truthy JUndefined = False"
| "truthy JNull = False"
| "truthy (JBool b) = b"
| "truthy (JNum r) = (r \<noteq> ''0'' \<and> r \<noteq> ''NaN'')"
| "truthy (JStr s) = (s \<noteq> [])"
| "truthy (JArr xs) = True"
| "truthy (JObj kvs) = True"

text \<open>\<open>Array.prototype.join\<close> with its default separator.\<close>

fun join_comma :: "string list \<Rightarrow> string" where
  "join_comma [] = []"
| "join_comma [a] = a"
| "join_comma (a # b # r) = a @ '','' @ join_comma (b # r)"

text \<open>
  The conversion to a string that a template literal \<open>`${v}`\<close> and
  \<open>localStorage.setItem(k, v)\<close> apply to a value; \<open>None\<close> is the TypeError it can
  throw. An object is converted by calling its \<open>toString\<close>: the inherited one gives
  \<open>[object Object]\<close>, but an own property \<open>toString\<close> hides it, and since that own
  property is data and cannot be called (and \<open>valueOf\<close> gives no primitive either), the
  conversion throws. An array joins the conversions of its elements, \<open>null\<close> and
  \<open>undefined\<close> counting as empty.
\<close>

fun to_string :: "json \<Rightarrow> string option" where
  "to_string JUndefined = Some ''undefined''"
| "to_string JNull = Some ''null''"
| "to_string (JBool b) = Some (if b then ''true'' else ''false'')"
| "to_string (JNum r) = Some r"
| "to_string (JStr s) = Some s"
| "to_string (JArr xs) =
     map_option join_comma
       (those (map (\<lambda>x. case x of JUndefined \<Rightarrow> Some [] | JNull \<Rightarrow> Some [] | _ \<Rightarrow> to_string x) xs))"
| "to_string (JObj kvs) =
     (case map_of kvs ''toString'' of None \<Rightarrow> Some ''[object Object]'' | Some v \<Rightarrow> None)"

text \<open>
  Property access \<open>v.k\<close> for the three names the code reads, \<open>access\<close>, \<open>property\<close>
  and \<open>message\<close>: reading a property of \<open>undefined\<close> or \<open>null\<close> throws a TypeError
  (\<open>None\<close>); an object gives its own property or \<open>undefined\<close>; a primitive and an
  array have no property of these names, so the read gives \<open>undefined\<close>. (An \<open>Error\<close>
  made without a message inherits the empty string as its \<open>message\<close>, which is falsy as
  \<open>undefined\<close> is; the code only tests it for truth.)
\<close>

fun get_prop :: "json \<Rightarrow> string \<Rightarrow> json option" where
  "get_prop JUndefined k = None"
| "get_prop JNull k = None"
| "get_prop (JObj kvs) k = (case map_of kvs k of None \<Rightarrow> Some JUndefined | Some v \<Rightarrow> Some v)"
| "get_prop v k = Some JUndefined"

text \<open>\<open>a || d\<close> on an optional string such as \<open>process.env.X\<close>.\<close>

fun or_default :: "string option \<Rightarrow> string \<Rightarrow> string" where
  "or_default None d = d"
| "or_default (Some a) d = (if a = [] then d else a)"

section \<open>Requests, responses, errors\<close>

datatype http_method = GET | POST | PUT | DELETE

text \<open>
  A request config. \<open>retry\<close> is the \<open>_retry\<close> property the response interceptor puts
  on a config (absent, hence falsy, on a fresh one).
\<close>

record config =
  url :: string
  "method" :: http_method
  headers :: "string \<rightharpoonup> string"
  data :: json
  retry :: bool

text \<open>A response; \<open>body\<close> is its \<open>data\<close> property (the name is taken by the config's).\<close>

record response =
  status :: nat
  body :: json

text \<open>
  What a promise rejects with: an axios error carrying the config of the request and the
  response if one arrived, an \<open>Error\<close> with its message, or a TypeError.
\<close>

datatype js_error =
    AxiosError config "response option"
  | Error string
  | TypeError

section \<open>The client's state\<close>

text \<open>
  What the network does next is a script: the answers it will give to the requests sent,
  in order. \<open>NetResponse\<close> is an HTTP response with its status and body, \<open>NetFailure\<close> a
  request that got no response. Every behaviour of a backend on a finite run is some
  script. An exhausted script answers nothing.
\<close>

datatype net_result = NetResponse nat json | NetFailure

text \<open>
  \<open>env\<close> is \<open>process.env.REACT_APP_API_URL\<close>; \<open>baseURL\<close> and \<open>default_headers\<close>
  are \<open>api.defaults.baseURL\<close> and \<open>api.defaults.headers\<close> (with its \<open>common\<close> part);
  \<open>href\<close> is \<open>window.location.href\<close>. \<open>sent\<close> records every request put on the wire,
  oldest first, with the base URL of the instance that sent it (\<open>None\<close> for the global
  \<open>axios\<close>, which has none).
\<close>

record client =
  env :: "string option"
  baseURL :: string
  default_headers :: "string \<rightharpoonup> string"
  localStorage :: "string \<rightharpoonup> string"
  href :: string
  network :: "net_result list"
  sent :: "(string option \<times> config) list"

definition getItem :: "string \<Rightarrow> client \<Rightarrow> string option" where
  "getItem k s = localStorage s k"

text \<open>
  \<open>setItem\<close> takes the string its caller's value was converted to; the store is taken to
  have room for it.
\<close>

definition setItem :: "string \<Rightarrow> string \<Rightarrow> client \<Rightarrow> client" where
  "setItem k v s = s\<lparr>localStorage := (localStorage s)(k \<mapsto> v)\<rparr>"

definition removeItem :: "string \<Rightarrow> client \<Rightarrow> client" where
  "removeItem k s = s\<lparr>localStorage := (localStorage s)(k := None)\<rparr>"

text \<open>
  \<open>axios.create\<close> of the source: the base URL falls back to port 8001, and
  \<open>Content-Type\<close> is the one default header.
\<close>

definition create_api ::
  "string option \<Rightarrow> (string \<rightharpoonup> string) \<Rightarrow> string \<Rightarrow> net_result list \<Rightarrow> client" where
  "create_api e store loc net =
     \<lparr>env = e,
      baseURL = or_default e ''http://localhost:8001/api'',
      default_headers = [''Content-Type'' \<mapsto> ''application/json''],
      localStorage = store,
      href = loc,
      network = net,
      sent = []\<rparr>"

text \<open>
  Putting a request on the wire: it is logged, the network's next answer is consumed, and
  a status outside 200..299 rejects (axios's default \<open>validateStatus\<close>).
\<close>

definition transmit :: "string option \<Rightarrow> config \<Rightarrow> client \<Rightarrow> (js_error + response) \<times> client" where
  "transmit base cfg s =
     (let s' = s\<lparr>network := tl (network s), sent := sent s @ [(base, cfg)]\<rparr>
      in case network s of
           [] \<Rightarrow> (Inl (AxiosError cfg None), s')
         | NetFailure # _ \<Rightarrow> (Inl (AxiosError cfg None), s')
         | NetResponse st d # _ \<Rightarrow>
             if 200 \<le> st \<and> st < 300
             then (Inr \<lparr>status = st, body = d\<rparr>, s')
             else (Inl (AxiosError cfg (Some \<lparr>status = st, body = d\<rparr>)), s'))"

section \<open>The interceptors\<close>

text \<open>
  The request interceptor: a truthy stored token becomes the \<open>Authorization\<close> header.
  The refresh token is read and not used. Its second handler only passes a rejection on,
  and the first handler of the response interceptor returns the response as it is; both
  are the identity and are written into \<open>api_request\<close> as such.
\<close>

definition request_interceptor :: "config \<Rightarrow> client \<Rightarrow> config" where
  "request_interceptor cfg s =
     (let token = getItem ''token'' s;
          refreshToken = getItem ''refreshToken'' s
      in case token of
           None \<Rightarrow> cfg
         | Some t \<Rightarrow>
             if t \<noteq> [] then cfg\<lparr>headers := (headers cfg)(''Authorization'' \<mapsto> ''Bearer '' @ t)\<rparr>
             else cfg)"

text \<open>The URL of the refresh call: its fallback is port 8000.\<close>

definition refresh_url :: "client \<Rightarrow> string" where
  "refresh_url s = or_default (env s) ''http://localhost:8000/api'' @ ''/token/refresh/''"

text \<open>
  The config that \<open>get(url)\<close>, \<open>post(url, data)\<close>, \<open>put(url, data)\<close> and
  \<open>delete(url)\<close> build from their arguments.
\<close>

definition request_config :: "http_method \<Rightarrow> string \<Rightarrow> json \<Rightarrow> config" where
  "request_config m u d = \<lparr>url = u, method = m, headers = Map.empty, data = d, retry = False\<rparr>"

text \<open>\<open>axios.post(url, data)\<close> on the global instance: no base URL, no interceptors.\<close>

definition axios_post :: "string \<Rightarrow> json \<Rightarrow> client \<Rightarrow> (js_error + response) \<times> client" where
  "axios_post u d s = transmit None (request_config POST u d) s"

text \<open>
  The part of the \<open>try\<close> block that can throw: reading the refresh token, the refresh
  call, and taking \<open>access\<close> out of the response's body. It gives the \<open>access\<close> value,
  or what was thrown.
\<close>

definition try_refresh :: "client \<Rightarrow> (js_error + json) \<times> client" where
  "try_refresh s =
     (case getItem ''refreshToken'' s of
        None \<Rightarrow> (Inl (Error ''No refresh token available''), s)
      | Some refreshToken \<Rightarrow>
          if refreshToken = [] then (Inl (Error ''No refresh token available''), s)
          else
            (case axios_post (refresh_url s) (JObj [(''refresh'', JStr refreshToken)]) s of
               (Inl e, s1) \<Rightarrow> (Inl e, s1)
             | (Inr response, s1) \<Rightarrow>
                 (case get_prop (body response) ''access'' of
                    None \<Rightarrow> (Inl TypeError, s1)
                  | Some access \<Rightarrow> (Inr access, s1))))"

text \<open>The \<open>catch\<close> block of the response interceptor.\<close>

definition refresh_failed :: "js_error \<Rightarrow> client \<Rightarrow> (js_error + response) \<times> client" where
  "refresh_failed refreshError s =
     (let s1 = removeItem ''token'' s;
          s2 = removeItem ''refreshToken'' s1;
          s3 = s2\<lparr>default_headers := (default_headers s2)(''Authorization'' := None)\<rparr>;
          s4 = s3\<lparr>href := ''/login''\<rparr>
      in (Inl refreshError, s4))"

text \<open>
  Before the request interceptor runs, axios merges the instance's default headers under
  those of the request config.
\<close>

definition merge_defaults :: "config \<Rightarrow> client \<Rightarrow> config" where
  "merge_defaults cfg s = cfg\<lparr>headers := default_headers s ++ headers cfg\<rparr>"

text \<open>
  The retry flag bounds the recursion: a request is re-issued only when its flag is
  unset, and it is re-issued with the flag set.
\<close>

definition retries_left :: "config \<Rightarrow> nat" where
  "retries_left cfg = (if retry cfg then 0 else 1)"

fun error_retries_left :: "js_error \<Rightarrow> nat" where
  "error_retries_left (AxiosError c r) = retries_left c"
| "error_retries_left e = 0"

text \<open>
  \<open>api(config)\<close> and the error handler of the response interceptor call each other: the
  handler re-issues the request through \<open>api\<close>. The config a failed request's error
  carries is the config that was sent, with any \<open>_retry\<close> it had. The handler returns
  the promise of the retry without awaiting it, so a failure of the retry is not caught by
  its \<open>catch\<close> block: what reaches \<open>refresh_failed\<close> is what \<open>try_refresh\<close> throws, and
  the TypeError of \<open>localStorage.setItem('token', access)\<close> for an \<open>access\<close> that has no
  conversion to a string. That call is the first to convert \<open>access\<close>; the two template
  literals after it convert it again, to the same string.
\<close>

function api_request :: "config \<Rightarrow> client \<Rightarrow> (js_error + response) \<times> client"
  and response_error :: "js_error \<Rightarrow> client \<Rightarrow> (js_error + response) \<times> client"
where
  "api_request cfg s =
     (let cfg1 = request_interceptor (merge_defaults cfg s) s
      in case transmit (Some (baseURL s)) cfg1 s of
           (Inr resp, s1) \<Rightarrow> (Inr resp, s1)
         | (Inl err, s1) \<Rightarrow> response_error err s1)"
| "response_error (AxiosError originalRequest resp) s =
     (if map_option status resp = Some 401 \<and> \<not> retry originalRequest then
        (let originalRequest = originalRequest\<lparr>retry := True\<rparr>
         in case try_refresh s of
              (Inl refreshError, s1) \<Rightarrow> refresh_failed refreshError s1
            | (Inr access, s1) \<Rightarrow>
                (case to_string access of
                   None \<Rightarrow> refresh_failed TypeError s1
                 | Some token \<Rightarrow>
                     (let s2 = setItem ''token'' token s1;
                          s3 = s2\<lparr>default_headers :=
                                    (default_headers s2)(''Authorization'' \<mapsto> ''Bearer '' @ token)\<rparr>;
                          originalRequest = originalRequest\<lparr>headers :=
                                    (headers originalRequest)(''Authorization'' \<mapsto>
                                       ''Bearer '' @ token)\<rparr>
                      in api_request originalRequest s3)))
      else (Inl (AxiosError originalRequest resp), s))"
| "response_error (Error m) s = (Inl (Error m), s)"
| "response_error TypeError s = (Inl TypeError, s)"
  by pat_completeness auto

termination
proof (relation "measure (\<lambda>x. case x of
           Inl (cfg, s) \<Rightarrow> 2 * retries_left cfg + 1
         | Inr (e, s) \<Rightarrow> 2 * error_retries_left e)", goal_cases)
  case 1
  show ?case by simp
next
  case (2 cfg s cfg1 x s1 err)
  have "retry cfg1 = retry cfg"
    using 2(1) by (simp add: request_interceptor_def merge_defaults_def Let_def split: option.split)
  moreover have "\<exists>r. err = AxiosError cfg1 r"
    using 2(2,3)
    by (auto simp: transmit_def Let_def split: list.splits net_result.splits if_splits)
  ultimately show ?case
    by (auto simp: retries_left_def)
next
  case (3 originalRequest resp s)
  then show ?case
    by (simp add: retries_left_def)
qed

declare api_request.simps [simp del] response_error.simps [simp del]

section \<open>The API calls\<close>

text \<open>
  \<open>api.get\<close>, \<open>api.post\<close>, \<open>api.put\<close> and \<open>api.delete\<close> build a fresh config and pass
  it to \<open>api\<close>; \<open>response_data\<close> is the \<open>return response.data\<close> that ends every wrapper.
\<close>

definition api_get :: "string \<Rightarrow> client \<Rightarrow> (js_error + response) \<times> client" where
  "api_get u s = api_request (request_config GET u JUndefined) s"

definition api_post :: "string \<Rightarrow> json \<Rightarrow> client \<Rightarrow> (js_error + response) \<times> client" where
  "api_post u d s = api_request (request_config POST u d) s"

definition api_put :: "string \<Rightarrow> json \<Rightarrow> client \<Rightarrow> (js_error + response) \<times> client" where
  "api_put u d s = api_request (request_config PUT u d) s"

definition api_delete :: "string \<Rightarrow> client \<Rightarrow> (js_error + response) \<times> client" where
  "api_delete u s = api_request (request_config DELETE u JUndefined) s"

definition response_data :: "(js_error + response) \<times> client \<Rightarrow> (js_error + json) \<times> client" where
  "response_data r = (case r of (Inl e, s) \<Rightarrow> (Inl e, s) | (Inr resp, s) \<Rightarrow> (Inr (body resp), s))"

text \<open>A parameter with the default \<open>'month'\<close>: the default applies to an omitted argument.\<close>

fun default_month :: "string option \<Rightarrow> string" where
  "default_month None = ''month''"
| "default_month (Some t) = t"

definition login :: "string \<Rightarrow> string \<Rightarrow> client \<Rightarrow> (js_error + json) \<times> client" where
  "login email password s =
     response_data (api_post ''/token/'' (JObj [(''username'', JStr email), (''password'', JStr password)]) s)"

definition register :: "json \<Rightarrow> client \<Rightarrow> (js_error + json) \<times> client" where
  "register userData s = response_data (api_post ''/auth/register/'' userData s)"

definition getUserProfile :: "client \<Rightarrow> (js_error + json) \<times> client" where
  "getUserProfile s = response_data (api_get ''/auth/profile/'' s)"

definition getThermostats :: "client \<Rightarrow> (js_error + json) \<times> client" where
  "getThermostats s = response_data (api_get ''/thermostats/'' s)"

definition getThermostatsByUser :: "client \<Rightarrow> (js_error + json) \<times> client" where
  "getThermostatsByUser s = response_data (api_get ''/thermostats/'' s)"

definition getThermostatsByProperty :: "string \<Rightarrow> client \<Rightarrow> (js_error + json) \<times> client" where
  "getThermostatsByProperty propertyId s =
     response_data (api_get (''/properties/'' @ propertyId @ ''/thermostats/'') s)"

definition getThermostat :: "string \<Rightarrow> client \<Rightarrow> (js_error + json) \<times> client" where
  "getThermostat id' s = response_data (api_get (''/thermostats/'' @ id' @ ''/'') s)"

definition addThermostat :: "json \<Rightarrow> client \<Rightarrow> (js_error + json) \<times> client" where
  "addThermostat thermostatData s = response_data (api_post ''/thermostats/'' thermostatData s)"

definition updateThermostat :: "string \<Rightarrow> json \<Rightarrow> client \<Rightarrow> (js_error + json) \<times> client" where
  "updateThermostat id' thermostatData s =
     response_data (api_put (''/thermostats/'' @ id' @ ''/'') thermostatData s)"

definition deleteThermostat :: "string \<Rightarrow> client \<Rightarrow> (js_error + json) \<times> client" where
  "deleteThermostat id' s = response_data (api_delete (''/thermostats/'' @ id' @ ''/'') s)"

text \<open>\<open>temperature\<close> is a number, given by its rendering.\<close>

definition setThermostatTemperature :: "string \<Rightarrow> string \<Rightarrow> client \<Rightarrow> (js_error + json) \<times> client" where
  "setThermostatTemperature id' temperature s =
     response_data (api_post (''/thermostats/'' @ id' @ ''/set_temperature/'')
                      (JObj [(''temperature'', JNum temperature)]) s)"

definition setThermostatMode :: "string \<Rightarrow> string \<Rightarrow> client \<Rightarrow> (js_error + json) \<times> client" where
  "setThermostatMode id' mode s =
     response_data (api_post (''/thermostats/'' @ id' @ ''/set_mode/'')
                      (JObj [(''mode'', JStr mode)]) s)"

definition getProperties :: "client \<Rightarrow> (js_error + json) \<times> client" where
  "getProperties s = response_data (api_get ''/properties/'' s)"

definition getProperty :: "string \<Rightarrow> client \<Rightarrow> (js_error + json) \<times> client" where
  "getProperty id' s = response_data (api_get (''/properties/'' @ id' @ ''/'') s)"

definition addProperty :: "json \<Rightarrow> client \<Rightarrow> (js_error + json) \<times> client" where
  "addProperty propertyData s = response_data (api_post ''/properties/'' propertyData s)"

definition updateProperty :: "string \<Rightarrow> json \<Rightarrow> client \<Rightarrow> (js_error + json) \<times> client" where
  "updateProperty id' propertyData s =
     response_data (api_put (''/properties/'' @ id' @ ''/'') propertyData s)"

definition deleteProperty :: "string \<Rightarrow> client \<Rightarrow> (js_error + json) \<times> client" where
  "deleteProperty id' s = response_data (api_delete (''/properties/'' @ id' @ ''/'') s)"

definition getCalendarEvents :: "string \<Rightarrow> client \<Rightarrow> (js_error + json) \<times> client" where
  "getCalendarEvents propertyId s =
     response_data (api_get (''/properties/'' @ propertyId @ ''/calendar/'') s)"

text \<open>
  \<open>addCalendarEvent\<close> reads \<open>eventData.property\<close> first: the read throws on
  \<open>undefined\<close> and \<open>null\<close>, and a falsy property is refused before any request. The
  template literal of the path then converts the property to a string, which can throw
  as well, again before any request.
\<close>

definition addCalendarEvent :: "json \<Rightarrow> client \<Rightarrow> (js_error + json) \<times> client" where
  "addCalendarEvent eventData s =
     (case get_prop eventData ''property'' of
        None \<Rightarrow> (Inl TypeError, s)
      | Some property \<Rightarrow>
          if \<not> truthy property then (Inl (Error ''eventData.property is required''), s)
          else
            (case to_string property of
               None \<Rightarrow> (Inl TypeError, s)
             | Some propertyId \<Rightarrow>
                 response_data
                   (api_post (''/properties/'' @ propertyId @ ''/calendar/'') eventData s)))"

definition updateCalendarEvent :: "string \<Rightarrow> json \<Rightarrow> client \<Rightarrow> (js_error + json) \<times> client" where
  "updateCalendarEvent id' eventData s =
     response_data (api_put (''/calendar-events/'' @ id' @ ''/'') eventData s)"

definition deleteCalendarEvent :: "string \<Rightarrow> client \<Rightarrow> (js_error + json) \<times> client" where
  "deleteCalendarEvent id' s = response_data (api_delete (''/calendar-events/'' @ id' @ ''/'') s)"

definition getStatistics :: "string option \<Rightarrow> client \<Rightarrow> (js_error + json) \<times> client" where
  "getStatistics timeRange s =
     response_data (api_get (''/statistics/?period='' @ default_month timeRange) s)"

definition getPropertyStatistics ::
  "string \<Rightarrow> string option \<Rightarrow> client \<Rightarrow> (js_error + json) \<times> client" where
  "getPropertyStatistics propertyId timeRange s =
     response_data (api_get (''/properties/'' @ propertyId @ ''/statistics/?period=''
                               @ default_month timeRange) s)"

definition getThermostatStatistics ::
  "string \<Rightarrow> string option \<Rightarrow> client \<Rightarrow> (js_error + json) \<times> client" where
  "getThermostatStatistics thermostatId timeRange s =
     response_data (api_get (''/statistics/?thermostat_id='' @ thermostatId @ ''&period=''
                               @ default_month timeRange) s)"

text \<open>
  The exported calls as one type, so that a statement can range over all of them:
  a constructor per wrapper, carrying its arguments, and \<open>invoke\<close> running it.
\<close>

datatype api_call =
    Login string string
  | Register json
  | GetUserProfile
  | GetThermostats
  | GetThermostatsByUser
  | GetThermostatsByProperty string
  | GetThermostat string
  | AddThermostat json
  | UpdateThermostat string json
  | DeleteThermostat string
  | SetThermostatTemperature string string
  | SetThermostatMode string string
  | GetProperties
  | GetProperty string
  | AddProperty json
  | UpdateProperty string json
  | DeleteProperty string
  | GetCalendarEvents string
  | AddCalendarEvent json
  | UpdateCalendarEvent string json
  | DeleteCalendarEvent string
  | GetStatistics "string option"
  | GetPropertyStatistics string "string option"
  | GetThermostatStatistics string "string option"

fun invoke :: "api_call \<Rightarrow> client \<Rightarrow> (js_error + json) \<times> client" where
  "invoke (Login email password) = login email password"
| "invoke (Register userData) = register userData"
| "invoke GetUserProfile = getUserProfile"
| "invoke GetThermostats = getThermostats"
| "invoke GetThermostatsByUser = getThermostatsByUser"
| "invoke (GetThermostatsByProperty propertyId) = getThermostatsByProperty propertyId"
| "invoke (GetThermostat id') = getThermostat id'"
| "invoke (AddThermostat thermostatData) = addThermostat thermostatData"
| "invoke (UpdateThermostat id' thermostatData) = updateThermostat id' thermostatData"
| "invoke (DeleteThermostat id') = deleteThermostat id'"
| "invoke (SetThermostatTemperature id' temperature) = setThermostatTemperature id' temperature"
| "invoke (SetThermostatMode id' mode) = setThermostatMode id' mode"
| "invoke GetProperties = getProperties"
| "invoke (GetProperty id') = getProperty id'"
| "invoke (AddProperty propertyData) = addProperty propertyData"
| "invoke (UpdateProperty id' propertyData) = updateProperty id' propertyData"
| "invoke (DeleteProperty id') = deleteProperty id'"
| "invoke (GetCalendarEvents propertyId) = getCalendarEvents propertyId"
| "invoke (AddCalendarEvent eventData) = addCalendarEvent eventData"
| "invoke (UpdateCalendarEvent id' eventData) = updateCalendarEvent id' eventData"
| "invoke (DeleteCalendarEvent id') = deleteCalendarEvent id'"
| "invoke (GetStatistics timeRange) = getStatistics timeRange"
| "invoke (GetPropertyStatistics propertyId timeRange) = getPropertyStatistics propertyId timeRange"
| "invoke (GetThermostatStatistics thermostatId timeRange) =
     getThermostatStatistics thermostatId timeRange"

text \<open>
  The specification's reading of the wrappers, as a table: each call stands for one request
  to its backend endpoint. Where a wrapper does more than hand its arguments on, the table
  says so: \<open>login\<close> sends the email as \<open>username\<close>, the two setters wrap their value in
  an object, identifiers and periods go into the path, and \<open>addCalendarEvent\<close> has no
  request at all for event data without a truthy \<open>property\<close>, or with one that has no
  conversion to a string.
\<close>

fun endpoint_request :: "api_call \<Rightarrow> js_error + config" where
  "endpoint_request (Login email password) =
     Inr (request_config POST ''/token/''
            (JObj [(''username'', JStr email), (''password'', JStr password)]))"
| "endpoint_request (Register userData) = Inr (request_config POST ''/auth/register/'' userData)"
| "endpoint_request GetUserProfile = Inr (request_config GET ''/auth/profile/'' JUndefined)"
| "endpoint_request GetThermostats = Inr (request_config GET ''/thermostats/'' JUndefined)"
| "endpoint_request GetThermostatsByUser = Inr (request_config GET ''/thermostats/'' JUndefined)"
| "endpoint_request (GetThermostatsByProperty propertyId) =
     Inr (request_config GET (''/properties/'' @ propertyId @ ''/thermostats/'') JUndefined)"
| "endpoint_request (GetThermostat id') =
     Inr (request_config GET (''/thermostats/'' @ id' @ ''/'') JUndefined)"
| "endpoint_request (AddThermostat thermostatData) =
     Inr (request_config POST ''/thermostats/'' thermostatData)"
| "endpoint_request (UpdateThermostat id' thermostatData) =
     Inr (request_config PUT (''/thermostats/'' @ id' @ ''/'') thermostatData)"
| "endpoint_request (DeleteThermostat id') =
     Inr (request_config DELETE (''/thermostats/'' @ id' @ ''/'') JUndefined)"
| "endpoint_request (SetThermostatTemperature id' temperature) =
     Inr (request_config POST (''/thermostats/'' @ id' @ ''/set_temperature/'')
            (JObj [(''temperature'', JNum temperature)]))"
| "endpoint_request (SetThermostatMode id' mode) =
     Inr (request_config POST (''/thermostats/'' @ id' @ ''/set_mode/'')
            (JObj [(''mode'', JStr mode)]))"
| "endpoint_request GetProperties = Inr (request_config GET ''/properties/'' JUndefined)"
| "endpoint_request (GetProperty id') =
     Inr (request_config GET (''/properties/'' @ id' @ ''/'') JUndefined)"
| "endpoint_request (AddProperty propertyData) =
     Inr (request_config POST ''/properties/'' propertyData)"
| "endpoint_request (UpdateProperty id' propertyData) =
     Inr (request_config PUT (''/properties/'' @ id' @ ''/'') propertyData)"
| "endpoint_request (DeleteProperty id') =
     Inr (request_config DELETE (''/properties/'' @ id' @ ''/'') JUndefined)"
| "endpoint_request (GetCalendarEvents propertyId) =
     Inr (request_config GET (''/properties/'' @ propertyId @ ''/calendar/'') JUndefined)"
| "endpoint_request (AddCalendarEvent eventData) =
     (case get_prop eventData ''property'' of
        None \<Rightarrow> Inl TypeError
      | Some property \<Rightarrow>
          if truthy property
          then (case to_string property of
                  None \<Rightarrow> Inl TypeError
                | Some propertyId \<Rightarrow>
                    Inr (request_config POST (''/properties/'' @ propertyId @ ''/calendar/'')
                           eventData))
          else Inl (Error ''eventData.property is required''))"
| "endpoint_request (UpdateCalendarEvent id' eventData) =
     Inr (request_config PUT (''/calendar-events/'' @ id' @ ''/'') eventData)"
| "endpoint_request (DeleteCalendarEvent id') =
     Inr (request_config DELETE (''/calendar-events/'' @ id' @ ''/'') JUndefined)"
| "endpoint_request (GetStatistics timeRange) =
     Inr (request_config GET (''/statistics/?period='' @ default_month timeRange) JUndefined)"
| "endpoint_request (GetPropertyStatistics propertyId timeRange) =
     Inr (request_config GET (''/properties/'' @ propertyId @ ''/statistics/?period=''
                                @ default_month timeRange) JUndefined)"
| "endpoint_request (GetThermostatStatistics thermostatId timeRange) =
     Inr (request_config GET (''/statistics/?thermostat_id='' @ thermostatId @ ''&period=''
                                @ default_month timeRange) JUndefined)"

section \<open>The vendor accounts page\<close>

text \<open>
  The state of \<open>VendorsPage\<close>: the loaded accounts, the form inputs, and the \<open>error\<close> and
  \<open>loading\<close> the page renders (\<open>error\<close>, when truthy, is shown in a box above the
  sections; \<open>null\<close> is \<open>JNull\<close>). The vendor calls \<open>api.vendors.*\<close> are not part of the
  sources at hand, so the outcome of each awaited call is a parameter: the value it
  resolves with (\<open>Inr\<close>), or the value it throws (\<open>Inl\<close>), which can be any value,
  \<open>null\<close> and \<open>undefined\<close> included. \<open>Number(s)\<close> is kept as it is written, the
  conversion is not computed. The \<open>preventDefault\<close> of the submit event is left out.
\<close>

datatype js_number = Number string

record page =
  cieloAccounts :: json
  nestAccounts :: json
  nethomeAccounts :: json
  cieloApiKey :: string
  cieloAccountName :: string
  cieloPropertyId :: string
  nestAccessToken :: string
  nestRefreshToken :: string
  nestExpiresAt :: string
  nestAccountName :: string
  nestPropertyId :: string
  nethomeApiKey :: string
  nethomeAccountName :: string
  nethomePropertyId :: string
  error :: json
  loading :: bool

record user =
  role :: string

record key_payload =
  api_key :: string
  account_name :: "string option"
  property_id :: "js_number option"

record nest_payload =
  access_token :: string
  refresh_token :: string
  expires_at :: string
  nest_account_name :: "string option"
  nest_property_id :: "js_number option"

text \<open>\<open>name || undefined\<close> and \<open>id ? Number(id) : undefined\<close>.\<close>

definition or_undefined :: "string \<Rightarrow> string option" where
  "or_undefined a = (if a = [] then None else Some a)"

definition number_or_undefined :: "string \<Rightarrow> js_number option" where
  "number_or_undefined a = (if a \<noteq> [] then Some (Number a) else None)"

text \<open>
  The body of the four \<open>catch\<close> blocks, \<open>setError(err.message || fallback)\<close>: reading
  \<open>message\<close> of a caught \<open>null\<close> or \<open>undefined\<close> throws a TypeError out of the block, and
  nothing is set; otherwise \<open>error\<close> becomes the message if it is truthy, the fallback if
  not.
\<close>

definition set_error_from :: "json \<Rightarrow> string \<Rightarrow> page \<Rightarrow> (js_error + unit) \<times> page" where
  "set_error_from err fallback p =
     (case get_prop err ''message'' of
        None \<Rightarrow> (Inl TypeError, p)
      | Some m \<Rightarrow> (Inr (), p\<lparr>error := (if truthy m then m else JStr fallback)\<rparr>))"

text \<open>
  \<open>fetchAccounts\<close>; \<open>settled\<close> is what awaiting the \<open>Promise.all\<close> of the three
  \<open>listAccounts\<close> calls gives. The \<open>finally\<close> block runs on every path, also when the
  \<open>catch\<close> block throws. The result says whether the promise of the function is
  fulfilled (\<open>Inr\<close>) or rejected, and with what.
\<close>

definition fetchAccounts :: "json + (json \<times> json \<times> json) \<Rightarrow> page \<Rightarrow> (js_error + unit) \<times> page" where
  "fetchAccounts settled p =
     (let p1 = p\<lparr>loading := True\<rparr>;
          p2 = p1\<lparr>error := JNull\<rparr>
      in case (case settled of
                 Inr (cielo, nest, nethome) \<Rightarrow>
                   (Inr (), p2\<lparr>cieloAccounts := cielo, nestAccounts := nest, nethomeAccounts := nethome\<rparr>)
               | Inl err \<Rightarrow> set_error_from err ''Failed to load vendor accounts'' p2) of
           (r, p3) \<Rightarrow> (r, p3\<lparr>loading := False\<rparr>))"

text \<open>The effect that loads the accounts on mount runs for an administrator only.\<close>

definition load_effect ::
  "user option \<Rightarrow> json + (json \<times> json \<times> json) \<Rightarrow> page \<Rightarrow> (js_error + unit) \<times> page" where
  "load_effect u settled p =
     (case u of
        None \<Rightarrow> (Inr (), p)
      | Some usr \<Rightarrow> if role usr \<noteq> ''admin'' then (Inr (), p) else fetchAccounts settled p)"

text \<open>The three reloads: what \<open>listAccounts\<close> throws, they throw on.\<close>

definition refreshCielo :: "json + json \<Rightarrow> page \<Rightarrow> (json + unit) \<times> page" where
  "refreshCielo listed p =
     (case listed of Inl err \<Rightarrow> (Inl err, p) | Inr accounts \<Rightarrow> (Inr (), p\<lparr>cieloAccounts := accounts\<rparr>))"

definition refreshNest :: "json + json \<Rightarrow> page \<Rightarrow> (json + unit) \<times> page" where
  "refreshNest listed p =
     (case listed of Inl err \<Rightarrow> (Inl err, p) | Inr accounts \<Rightarrow> (Inr (), p\<lparr>nestAccounts := accounts\<rparr>))"

definition refreshNetHome :: "json + json \<Rightarrow> page \<Rightarrow> (json + unit) \<times> page" where
  "refreshNetHome listed p =
     (case listed of Inl err \<Rightarrow> (Inl err, p) | Inr accounts \<Rightarrow> (Inr (), p\<lparr>nethomeAccounts := accounts\<rparr>))"

text \<open>
  The submit handlers. \<open>createAccount\<close> is the vendor call, a function of the payload it
  is given; \<open>listed\<close> is the outcome of the \<open>listAccounts\<close> call of the reload that
  follows. Both awaits are inside the \<open>try\<close>, so what either throws goes to the
  \<open>catch\<close> block.
\<close>

definition handleCieloCreate ::
  "(key_payload \<Rightarrow> json + unit) \<Rightarrow> json + json \<Rightarrow> page \<Rightarrow> (js_error + unit) \<times> page" where
  "handleCieloCreate createAccount listed p =
     (if cieloApiKey p = [] then (Inr (), p\<lparr>error := JStr ''Cielo API key is required''\<rparr>)
      else
        (let p1 = p\<lparr>error := JNull\<rparr>
         in case createAccount
                   \<lparr>api_key = cieloApiKey p,
                    account_name = or_undefined (cieloAccountName p),
                    property_id = number_or_undefined (cieloPropertyId p)\<rparr> of
              Inl err \<Rightarrow> set_error_from err ''Failed to create Cielo account'' p1
            | Inr _ \<Rightarrow>
                (let p2 = p1\<lparr>cieloApiKey := [], cieloAccountName := [], cieloPropertyId := []\<rparr>
                 in case refreshCielo listed p2 of
                      (Inl err, p3) \<Rightarrow> set_error_from err ''Failed to create Cielo account'' p3
                    | (Inr _, p3) \<Rightarrow> (Inr (), p3))))"

definition handleNestCreate ::
  "(nest_payload \<Rightarrow> json + unit) \<Rightarrow> json + json \<Rightarrow> page \<Rightarrow> (js_error + unit) \<times> page" where
  "handleNestCreate createAccount listed p =
     (if nestAccessToken p = [] \<or> nestRefreshToken p = [] \<or> nestExpiresAt p = []
      then (Inr (), p\<lparr>error := JStr ''Nest access token, refresh token and expires_at are required''\<rparr>)
      else
        (let p1 = p\<lparr>error := JNull\<rparr>
         in case createAccount
                   \<lparr>access_token = nestAccessToken p,
                    refresh_token = nestRefreshToken p,
                    expires_at = nestExpiresAt p,
                    nest_account_name = or_undefined (nestAccountName p),
                    nest_property_id = number_or_undefined (nestPropertyId p)\<rparr> of
              Inl err \<Rightarrow> set_error_from err ''Failed to create Nest account'' p1
            | Inr _ \<Rightarrow>
                (let p2 = p1\<lparr>nestAccessToken := [], nestRefreshToken := [], nestExpiresAt := [],
                             nestAccountName := [], nestPropertyId := []\<rparr>
                 in case refreshNest listed p2 of
                      (Inl err, p3) \<Rightarrow> set_error_from err ''Failed to create Nest account'' p3
                    | (Inr _, p3) \<Rightarrow> (Inr (), p3))))"

definition handleNetHomeCreate ::
  "(key_payload \<Rightarrow> json + unit) \<Rightarrow> json + json \<Rightarrow> page \<Rightarrow> (js_error + unit) \<times> page" where
  "handleNetHomeCreate createAccount listed p =
     (if nethomeApiKey p = [] then (Inr (), p\<lparr>error := JStr ''NetHome API key is required''\<rparr>)
      else
        (let p1 = p\<lparr>error := JNull\<rparr>
         in case createAccount
                   \<lparr>api_key = nethomeApiKey p,
                    account_name = or_undefined (nethomeAccountName p),
                    property_id = number_or_undefined (nethomePropertyId p)\<rparr> of
              Inl err \<Rightarrow> set_error_from err ''Failed to create NetHome account'' p1
            | Inr _ \<Rightarrow>
                (let p2 = p1\<lparr>nethomeApiKey := [], nethomeAccountName := [], nethomePropertyId := []\<rparr>
                 in case refreshNetHome listed p2 of
                      (Inl err, p3) \<Rightarrow> set_error_from err ''Failed to create NetHome account'' p3
                    | (Inr _, p3) \<Rightarrow> (Inr (), p3))))"

text \<open>The state the component starts in: the initial values of its \<open>useState\<close> calls.\<close>

definition initial_page :: page where
  "initial_page =
     \<lparr>cieloAccounts = JArr [], nestAccounts = JArr [], nethomeAccounts = JArr [],
      cieloApiKey = [], cieloAccountName = [], cieloPropertyId = [],
      nestAccessToken = [], nestRefreshToken = [], nestExpiresAt = [],
      nestAccountName = [], nestPropertyId = [],
      nethomeApiKey = [], nethomeAccountName = [], nethomePropertyId = [],
      error = JNull, loading = False\<rparr>"

section \<open>Sample inputs\<close>

text \<open>
  A request as \<open>getThermostats\<close> makes it, and a freshly created client of a signed-in
  user (no \<open>REACT_APP_API_URL\<close>, both tokens stored) facing a given network script.
\<close>

definition example_request :: config where
  "example_request = request_config GET ''/thermostats/'' JUndefined"

definition example_client :: "net_result list \<Rightarrow> client" where
  "example_client net =
     create_api None [''token'' \<mapsto> ''old'', ''refreshToken'' \<mapsto> ''r1''] ''/dashboard'' net"

section \<open>Facts about the wire\<close>

lemmas run_defs = api_request.simps response_error.simps example_request_def example_client_def
  create_api_def request_config_def Let_def merge_defaults_def request_interceptor_def getItem_def
  transmit_def try_refresh_def axios_post_def refresh_url_def setItem_def removeItem_def
  refresh_failed_def

lemma transmit_sent: "sent (snd (transmit b c s)) = sent s @ [(b, c)]"
  by (simp add: transmit_def Let_def split: list.split net_result.split)

lemma transmit_frame:
  "env (snd (transmit b c s)) = env s"
  "baseURL (snd (transmit b c s)) = baseURL s"
  by (simp_all add: transmit_def Let_def split: list.split net_result.split)

lemma transmit_error:
  "transmit b cfg s = (Inl e, s') \<Longrightarrow> \<exists>r. e = AxiosError cfg r"
  by (auto simp: transmit_def Let_def split: list.splits net_result.splits if_splits)

lemma transmit_ok:
  "network s = NetResponse st d # rest \<Longrightarrow> 200 \<le> st \<Longrightarrow> st < 300 \<Longrightarrow>
   transmit b cfg s =
     (Inr \<lparr>status = st, body = d\<rparr>, s\<lparr>network := rest, sent := sent s @ [(b, cfg)]\<rparr>)"
  by (simp add: transmit_def Let_def)

text \<open>Merging the defaults and running the request interceptor touch the headers only.\<close>

lemma interceptor_keeps:
  "retry (request_interceptor (merge_defaults cfg s) s) = retry cfg"
  "url (request_interceptor (merge_defaults cfg s) s) = url cfg"
  "method (request_interceptor (merge_defaults cfg s) s) = method cfg"
  "data (request_interceptor (merge_defaults cfg s) s) = data cfg"
  by (simp_all add: request_interceptor_def merge_defaults_def Let_def split: option.split)

lemma response_error_retried:
  "retry cfg \<Longrightarrow> response_error (AxiosError cfg r) s = (Inl (AxiosError cfg r), s)"
  by (simp add: response_error.simps)

text \<open>A request that carries the retry flag is sent once, and its outcome is final.\<close>

lemma api_request_retried:
  assumes "retry cfg"
  shows "api_request cfg s =
           transmit (Some (baseURL s)) (request_interceptor (merge_defaults cfg s) s) s"
proof -
  let ?c1 = "request_interceptor (merge_defaults cfg s) s"
  have r: "retry ?c1" using assms by (simp add: interceptor_keeps)
  obtain x s1 where t: "transmit (Some (baseURL s)) ?c1 s = (x, s1)"
    by (cases "transmit (Some (baseURL s)) ?c1 s")
  show ?thesis
  proof (cases x)
    case (Inl e)
    with t transmit_error obtain rr where "e = AxiosError ?c1 rr" by blast
    with Inl t r show ?thesis by (simp add: api_request.simps Let_def response_error_retried)
  next
    case (Inr resp)
    with t show ?thesis by (simp add: api_request.simps Let_def)
  qed
qed

lemma api_request_ok:
  assumes "network s = NetResponse st d # rest" "200 \<le> st" "st < 300"
  shows "api_request cfg s =
           (Inr \<lparr>status = st, body = d\<rparr>,
            s\<lparr>network := rest,
              sent := sent s @ [(Some (baseURL s), request_interceptor (merge_defaults cfg s) s)]\<rparr>)"
  using assms by (simp add: api_request.simps Let_def transmit_ok)

lemma api_request_rejected:
  assumes "network s = NetResponse st d # rest" "\<not> (200 \<le> st \<and> st < 300)"
  shows "api_request cfg s =
           response_error
             (AxiosError (request_interceptor (merge_defaults cfg s) s) (Some \<lparr>status = st, body = d\<rparr>))
             (s\<lparr>network := rest,
                sent := sent s @ [(Some (baseURL s), request_interceptor (merge_defaults cfg s) s)]\<rparr>)"
  using assms by (auto simp: api_request.simps Let_def transmit_def)

text \<open>The refresh either throws before anything is sent, or posts the stored token once.\<close>

lemma try_refresh_sent:
  "sent (snd (try_refresh s)) = sent s \<and> (\<exists>e. fst (try_refresh s) = Inl e)
   \<or> (\<exists>rt. getItem ''refreshToken'' s = Some rt \<and> rt \<noteq> [] \<and>
        sent (snd (try_refresh s)) =
          sent s @ [(None, request_config POST (refresh_url s) (JObj [(''refresh'', JStr rt)]))])"
  by (auto simp: try_refresh_def axios_post_def transmit_sent
           split: option.split prod.split sum.split
           dest: arg_cong [where f = "\<lambda>x. sent (snd x)"])

text \<open>With a truthy refresh token stored the refresh call is made, whatever comes of it.\<close>

lemma try_refresh_posts:
  assumes "getItem ''refreshToken'' s = Some rt" and "rt \<noteq> []"
  shows "sent (snd (try_refresh s)) =
           sent s @ [(None, request_config POST (refresh_url s) (JObj [(''refresh'', JStr rt)]))]"
  using assms
  by (auto simp: try_refresh_def axios_post_def transmit_sent
           split: option.split prod.split sum.split
           dest: arg_cong [where f = "\<lambda>x. sent (snd x)"])

lemma try_refresh_baseURL: "baseURL (snd (try_refresh s)) = baseURL s"
  by (auto simp: try_refresh_def axios_post_def transmit_frame
           split: option.split prod.split sum.split
           dest: arg_cong [where f = "\<lambda>x. baseURL (snd x)"])

lemma try_refresh_ok:
  assumes "getItem ''refreshToken'' s = Some rt" "rt \<noteq> []"
    and "network s = NetResponse st d # rest" "200 \<le> st" "st < 300"
    and "get_prop d ''access'' = Some access"
  shows "try_refresh s = (Inr access,
           s\<lparr>network := rest,
             sent := sent s @ [(None, request_config POST (refresh_url s) (JObj [(''refresh'', JStr rt)]))]\<rparr>)"
  using assms by (simp add: try_refresh_def axios_post_def transmit_ok)

text \<open>
  What one run of the error handler puts on the wire: nothing, the refresh call alone, or
  the refresh call followed by the re-issued request, which carries the retry flag.
\<close>

lemma response_error_sent:
  "\<exists>new. sent (snd (response_error (AxiosError c r) s)) = sent s @ new \<and>
     (new = []
      \<or> (\<exists>rt. new = [(None, request_config POST (refresh_url s) (JObj [(''refresh'', JStr rt)]))])
      \<or> (\<exists>rt c2. new = [(None, request_config POST (refresh_url s) (JObj [(''refresh'', JStr rt)])),
                          (Some (baseURL s), c2)] \<and> retry c2
             \<and> url c2 = url c \<and> method c2 = method c \<and> data c2 = data c)) \<and>
     (retry c \<longrightarrow> new = [])"
proof (cases "map_option status r = Some 401 \<and> \<not> retry c")
  case False
  then show ?thesis by (auto simp: response_error.simps)
next
  case True
  obtain x s1 where tr: "try_refresh s = (x, s1)" by (cases "try_refresh s")
  show ?thesis
  proof (cases x)
    case (Inl e)
    with tr True have "sent (snd (response_error (AxiosError c r) s)) = sent s1"
      by (simp add: response_error.simps refresh_failed_def removeItem_def Let_def)
    moreover from try_refresh_sent [of s] tr
    have "sent s1 = sent s \<or>
      (\<exists>rt. sent s1 = sent s @ [(None, request_config POST (refresh_url s) (JObj [(''refresh'', JStr rt)]))])"
      by auto
    ultimately show ?thesis using True by auto
  next
    case (Inr access)
    from try_refresh_sent [of s] tr Inr
    obtain rt where
      rt: "sent s1 = sent s @ [(None, request_config POST (refresh_url s) (JObj [(''refresh'', JStr rt)]))]"
      by auto
    show ?thesis
    proof (cases "to_string access")
      case None
      with Inr tr True have "sent (snd (response_error (AxiosError c r) s)) = sent s1"
        by (simp add: response_error.simps refresh_failed_def removeItem_def Let_def)
      with rt True show ?thesis by auto
    next
      case (Some tok)
      define s3 where "s3 = (setItem ''token'' tok s1)\<lparr>default_headers :=
          (default_headers (setItem ''token'' tok s1))(''Authorization'' \<mapsto> ''Bearer '' @ tok)\<rparr>"
      define c2 where "c2 = c\<lparr>retry := True,
          headers := (headers c)(''Authorization'' \<mapsto> ''Bearer '' @ tok)\<rparr>"
      let ?c3 = "request_interceptor (merge_defaults c2 s3) s3"
      from Inr Some tr True have eq: "response_error (AxiosError c r) s = api_request c2 s3"
        by (simp add: response_error.simps Let_def s3_def c2_def)
      have "retry c2" by (simp add: c2_def)
      then have "api_request c2 s3 = transmit (Some (baseURL s3)) ?c3 s3"
        by (rule api_request_retried)
      then have "sent (snd (response_error (AxiosError c r) s)) = sent s3 @ [(Some (baseURL s3), ?c3)]"
        using eq by (simp add: transmit_sent)
      moreover have "sent s3 = sent s1" "baseURL s3 = baseURL s1"
        by (simp_all add: s3_def setItem_def)
      moreover from try_refresh_baseURL [of s] tr have "baseURL s1 = baseURL s" by simp
      moreover have "retry ?c3" "url ?c3 = url c" "method ?c3 = method c" "data ?c3 = data c"
        by (simp_all add: interceptor_keeps) (simp_all add: c2_def)
      ultimately show ?thesis using True rt by auto
    qed
  qed
qed

text \<open>The same for a whole request: the request itself, then what the handler adds.\<close>

lemma api_request_sent:
  "\<exists>new. sent (snd (api_request cfg s)) =
       sent s @ (Some (baseURL s), request_interceptor (merge_defaults cfg s) s) # new \<and>
     (new = []
      \<or> (\<exists>rt. new = [(None, request_config POST (refresh_url s) (JObj [(''refresh'', JStr rt)]))])
      \<or> (\<exists>rt c2. new = [(None, request_config POST (refresh_url s) (JObj [(''refresh'', JStr rt)])),
                          (Some (baseURL s), c2)] \<and> retry c2
             \<and> url c2 = url cfg \<and> method c2 = method cfg \<and> data c2 = data cfg)) \<and>
     (retry cfg \<longrightarrow> new = [])"
proof -
  let ?c1 = "request_interceptor (merge_defaults cfg s) s"
  obtain x s1 where t: "transmit (Some (baseURL s)) ?c1 s = (x, s1)"
    by (cases "transmit (Some (baseURL s)) ?c1 s")
  from transmit_sent [of "Some (baseURL s)" ?c1 s] t
  have s1: "sent s1 = sent s @ [(Some (baseURL s), ?c1)]" by simp
  from transmit_frame [of "Some (baseURL s)" ?c1 s] t
  have fr: "env s1 = env s" "baseURL s1 = baseURL s" by simp_all
  then have rc: "refresh_url s1 = refresh_url s"
    by (simp add: refresh_url_def)
  show ?thesis
  proof (cases x)
    case (Inr resp)
    with t s1 show ?thesis by (simp add: api_request.simps Let_def)
  next
    case (Inl e)
    with t transmit_error obtain r where e: "e = AxiosError ?c1 r" by blast
    with Inl t have "api_request cfg s = response_error (AxiosError ?c1 r) s1"
      by (simp add: api_request.simps Let_def)
    with response_error_sent [of ?c1 r s1] s1 fr rc interceptor_keeps [of cfg s] show ?thesis
      by auto
  qed
qed

section \<open>The request interceptor\<close>

text \<open>
  C6, as amended. The request interceptor attaches \<open>Authorization: Bearer <token>\<close>
  exactly when a non-empty token is stored under \<open>token\<close>, changing nothing else of the
  config; when no token is stored, or the stored token is the empty string, the config
  passes through unchanged.
\<close>

theorem request_interceptor_bearer:
  "(getItem ''token'' s = Some t \<and> t \<noteq> [] \<longrightarrow>
      request_interceptor cfg s =
        cfg\<lparr>headers := (headers cfg)(''Authorization'' \<mapsto> ''Bearer '' @ t)\<rparr>)
   \<and> (getItem ''token'' s = None \<or> getItem ''token'' s = Some [] \<longrightarrow>
      request_interceptor cfg s = cfg)"
  by (auto simp: request_interceptor_def Let_def)

text \<open>Both cases at work: a stored token \<open>abc\<close>, and an empty store.\<close>

theorem request_interceptor_bearer_witness:
  "getItem ''token'' (create_api None [''token'' \<mapsto> ''abc''] ''/'' []) = Some ''abc''
   \<and> headers (request_interceptor example_request (create_api None [''token'' \<mapsto> ''abc''] ''/'' []))
        ''Authorization'' = Some ''Bearer abc''
   \<and> url (request_interceptor example_request (create_api None [''token'' \<mapsto> ''abc''] ''/'' []))
        = ''/thermostats/''
   \<and> getItem ''token'' (create_api None Map.empty ''/'' []) = None
   \<and> request_interceptor example_request (create_api None Map.empty ''/'' []) = example_request"
proof -
  have a: "getItem ''token'' (create_api None [''token'' \<mapsto> ''abc''] ''/'' []) = Some ''abc'' \<and> ''abc'' \<noteq> []"
    and b: "getItem ''token'' (create_api None Map.empty ''/'' []) = None"
    by (simp_all add: getItem_def create_api_def)
  from a request_interceptor_bearer
         [of "create_api None [''token'' \<mapsto> ''abc''] ''/'' []" "''abc''" example_request]
  have "request_interceptor example_request (create_api None [''token'' \<mapsto> ''abc''] ''/'' []) =
          example_request\<lparr>headers := (headers example_request)(''Authorization'' \<mapsto> ''Bearer '' @ ''abc'')\<rparr>"
    by blast
  moreover from b request_interceptor_bearer [of "create_api None Map.empty ''/'' []" "[]" example_request]
  have "request_interceptor example_request (create_api None Map.empty ''/'' []) = example_request"
    by blast
  ultimately show ?thesis using a b
    by (simp add: example_request_def request_config_def)
qed

text \<open>
  The claim as written fails for a stored empty string: a value is stored under \<open>token\<close>,
  and the request leaves without an \<open>Authorization\<close> header.
\<close>

theorem empty_token_no_header_counterexample:
  "getItem ''token'' (create_api None [''token'' \<mapsto> []] ''/'' []) = Some []
   \<and> headers (request_interceptor example_request (create_api None [''token'' \<mapsto> []] ''/'' []))
        ''Authorization'' = None"
  by (simp add: getItem_def create_api_def request_interceptor_def example_request_def
        request_config_def)

section \<open>The response interceptor\<close>

text \<open>
  C5. For an error whose response status is not 401 (or that has no response), and for a 401
  on a request already marked as retried, the response interceptor rejects with the error it
  was given and leaves the whole client state as it was: the stored \<open>token\<close> and
  \<open>refreshToken\<close> and the default \<open>Authorization\<close> header among it.
\<close>

theorem other_errors_pass_through:
  assumes "map_option status resp \<noteq> Some 401 \<or> retry cfg"
  shows "response_error (AxiosError cfg resp) s = (Inl (AxiosError cfg resp), s)"
  using assms by (auto simp: response_error.simps)

theorem other_errors_pass_through_witness:
  "map_option status (Some \<lparr>status = 500, body = JNull\<rparr>) \<noteq> Some 401
   \<and> fst (response_error (AxiosError example_request (Some \<lparr>status = 500, body = JNull\<rparr>))
            (example_client [])) =
       Inl (AxiosError example_request (Some \<lparr>status = 500, body = JNull\<rparr>))
   \<and> localStorage (snd (response_error (AxiosError example_request (Some \<lparr>status = 500, body = JNull\<rparr>))
            (example_client []))) ''token'' = Some ''old''
   \<and> localStorage (snd (response_error (AxiosError example_request (Some \<lparr>status = 500, body = JNull\<rparr>))
            (example_client []))) ''refreshToken'' = Some ''r1''"
proof -
  have h: "map_option status (Some \<lparr>status = 500, body = JNull\<rparr>) \<noteq> Some 401 \<or> retry example_request"
    by simp
  from other_errors_pass_through [OF h, of "example_client []"] h show ?thesis
    by (simp add: example_client_def create_api_def)
qed

text \<open>
  The handler on a fresh 401, with a truthy refresh token stored: the refresh call is the
  next request on the wire, whatever the handler does after it.
\<close>

lemma response_error_posts:
  assumes "map_option status resp = Some 401" and "\<not> retry cfg"
    and "getItem ''refreshToken'' s = Some rt" and "rt \<noteq> []"
  shows "\<exists>more. sent (snd (response_error (AxiosError cfg resp) s)) =
           sent s @ (None, request_config POST (refresh_url s) (JObj [(''refresh'', JStr rt)])) # more"
proof -
  obtain x s1 where tr: "try_refresh s = (x, s1)" by (cases "try_refresh s")
  from try_refresh_posts [OF assms(3,4)] tr
  have s1: "sent s1 = sent s @ [(None, request_config POST (refresh_url s) (JObj [(''refresh'', JStr rt)]))]"
    by simp
  show ?thesis
  proof (cases x)
    case (Inl e)
    with tr assms(1,2) have "sent (snd (response_error (AxiosError cfg resp) s)) = sent s1"
      by (simp add: response_error.simps refresh_failed_def removeItem_def Let_def)
    with s1 show ?thesis by simp
  next
    case (Inr access)
    show ?thesis
    proof (cases "to_string access")
      case None
      with Inr tr assms(1,2) have "sent (snd (response_error (AxiosError cfg resp) s)) = sent s1"
        by (simp add: response_error.simps refresh_failed_def removeItem_def Let_def)
      with s1 show ?thesis by simp
    next
      case (Some tok)
      define s3 where "s3 = (setItem ''token'' tok s1)\<lparr>default_headers :=
          (default_headers (setItem ''token'' tok s1))(''Authorization'' \<mapsto> ''Bearer '' @ tok)\<rparr>"
      define c2 where "c2 = cfg\<lparr>retry := True,
          headers := (headers cfg)(''Authorization'' \<mapsto> ''Bearer '' @ tok)\<rparr>"
      from Inr Some tr assms(1,2) have "response_error (AxiosError cfg resp) s = api_request c2 s3"
        by (simp add: response_error.simps Let_def s3_def c2_def)
      moreover from api_request_sent [of c2 s3] obtain new where
        "sent (snd (api_request c2 s3)) =
           sent s3 @ (Some (baseURL s3), request_interceptor (merge_defaults c2 s3) s3) # new"
        by blast
      moreover have "sent s3 = sent s1" by (simp add: s3_def setItem_def)
      ultimately show ?thesis using s1 by simp
    qed
  qed
qed

text \<open>The handler on a fresh 401 whose refresh succeeds: it hands over to \<open>api\<close>.\<close>

lemma response_error_refreshed:
  assumes "map_option status resp = Some 401" and "\<not> retry cfg"
    and "getItem ''refreshToken'' s = Some rt" and "rt \<noteq> []"
    and "network s = NetResponse st d # rest" and "200 \<le> st" and "st < 300"
    and "get_prop d ''access'' = Some access"
    and "to_string access = Some tok"
  shows "response_error (AxiosError cfg resp) s =
           api_request
             (cfg\<lparr>retry := True,
                  headers := (headers cfg)(''Authorization'' \<mapsto> ''Bearer '' @ tok)\<rparr>)
             (s\<lparr>network := rest,
                sent := sent s @ [(None, request_config POST (refresh_url s)
                                           (JObj [(''refresh'', JStr rt)]))],
                localStorage := (localStorage s)(''token'' \<mapsto> tok),
                default_headers := (default_headers s)(''Authorization'' \<mapsto> ''Bearer '' @ tok)\<rparr>)"
proof -
  from assms(3-8) have "try_refresh s = (Inr access,
           s\<lparr>network := rest,
             sent := sent s @ [(None, request_config POST (refresh_url s) (JObj [(''refresh'', JStr rt)]))]\<rparr>)"
    by (rule try_refresh_ok)
  with assms(1,2,9) show ?thesis
    by (simp add: response_error.simps Let_def setItem_def)
qed

text \<open>
  The re-issued config is already what merging the defaults and the request interceptor
  would make of it: both find the new bearer token in place.
\<close>

lemma retried_config_fixed:
  assumes "c1 = request_interceptor (merge_defaults cfg s) s"
    and "default_headers s3 = (default_headers s)(''Authorization'' \<mapsto> ''Bearer '' @ tok)"
    and "localStorage s3 = (localStorage s)(''token'' \<mapsto> tok)"
    and "c2 = c1\<lparr>retry := True, headers := (headers c1)(''Authorization'' \<mapsto> ''Bearer '' @ tok)\<rparr>"
  shows "request_interceptor (merge_defaults c2 s3) s3 = c2"
proof -
  have "default_headers s3 ++ headers c2 = headers c2"
    using assms
    by (auto simp: fun_eq_iff map_add_def request_interceptor_def merge_defaults_def Let_def getItem_def
             split: option.splits)
  then have "merge_defaults c2 s3 = c2"
    by (simp add: merge_defaults_def)
  moreover have "request_interceptor c2 s3 = c2"
    using assms(3,4) by (simp add: request_interceptor_def getItem_def Let_def)
  ultimately show ?thesis by simp
qed

text \<open>
  C1, as amended. When a request made through the client is answered with a 401, has not
  been retried, and a non-empty refresh token is stored, the response interceptor posts
  \<open>{refresh: <that token>}\<close> to the token-refresh endpoint: after the request itself it
  is the next request on the wire, whatever the backend answers to it. When that call
  succeeds (a 2xx response whose body can be read for \<open>access\<close>, with an \<open>access\<close> that
  can be converted to a string), the interceptor stores the returned access token under
  \<open>token\<close>, sets the \<open>Authorization\<close> header of the client's defaults and of the
  original request to \<open>Bearer <access>\<close>, marks the request as retried and sends it
  again; what that one further request gives, response or error, is the result.
\<close>

theorem refresh_then_retry:
  assumes "\<not> retry cfg"
    and "network s = NetResponse 401 d0 # net1"
    and "getItem ''refreshToken'' s = Some rt" and "rt \<noteq> []"
    and "c1 = request_interceptor (merge_defaults cfg s) s"
  shows "(\<exists>more. sent (snd (api_request cfg s)) =
            sent s @ (Some (baseURL s), c1)
                   # (None, request_config POST (refresh_url s) (JObj [(''refresh'', JStr rt)]))
                   # more)
       \<and> (net1 = NetResponse st d # rest \<and> 200 \<le> st \<and> st < 300
            \<and> get_prop d ''access'' = Some access \<and> to_string access = Some tok \<longrightarrow>
          api_request cfg s =
            transmit (Some (baseURL s))
              (c1\<lparr>retry := True,
                  headers := (headers c1)(''Authorization'' \<mapsto> ''Bearer '' @ tok)\<rparr>)
              (s\<lparr>network := rest,
                 sent := sent s @ [(Some (baseURL s), c1),
                                   (None, request_config POST (refresh_url s)
                                            (JObj [(''refresh'', JStr rt)]))],
                 localStorage := (localStorage s)(''token'' \<mapsto> tok),
                 default_headers := (default_headers s)(''Authorization'' \<mapsto> ''Bearer '' @ tok)\<rparr>))"
proof (intro conjI impI)
  let ?s1 = "s\<lparr>network := net1, sent := sent s @ [(Some (baseURL s), c1)]\<rparr>"
  have first: "api_request cfg s =
                 response_error (AxiosError c1 (Some \<lparr>status = 401, body = d0\<rparr>)) ?s1"
    using assms(2,5) by (simp add: api_request_rejected)
  have c1: "\<not> retry c1" "getItem ''refreshToken'' ?s1 = Some rt" "refresh_url ?s1 = refresh_url s"
    using assms(1,3,5) by (simp_all add: interceptor_keeps getItem_def refresh_url_def)
  show "\<exists>more. sent (snd (api_request cfg s)) =
            sent s @ (Some (baseURL s), c1)
                   # (None, request_config POST (refresh_url s) (JObj [(''refresh'', JStr rt)]))
                   # more"
    using response_error_posts [of "Some \<lparr>status = 401, body = d0\<rparr>" c1 ?s1 rt] c1 assms(4) first
    by simp
  assume ok: "net1 = NetResponse st d # rest \<and> 200 \<le> st \<and> st < 300
            \<and> get_prop d ''access'' = Some access \<and> to_string access = Some tok"
  let ?c2 = "c1\<lparr>retry := True,
                 headers := (headers c1)(''Authorization'' \<mapsto> ''Bearer '' @ tok)\<rparr>"
  let ?s3 = "s\<lparr>network := rest,
                sent := sent s @ [(Some (baseURL s), c1),
                                  (None, request_config POST (refresh_url s)
                                           (JObj [(''refresh'', JStr rt)]))],
                localStorage := (localStorage s)(''token'' \<mapsto> tok),
                default_headers := (default_headers s)(''Authorization'' \<mapsto> ''Bearer '' @ tok)\<rparr>"
  note first
  also have "response_error (AxiosError c1 (Some \<lparr>status = 401, body = d0\<rparr>)) ?s1 =
               api_request ?c2 ?s3"
    using response_error_refreshed
            [of "Some \<lparr>status = 401, body = d0\<rparr>" c1 ?s1 rt st d rest access tok] c1 assms(4) ok
    by simp
  also have "\<dots> = transmit (Some (baseURL s)) ?c2 ?s3"
  proof -
    have fixed: "request_interceptor (merge_defaults ?c2 ?s3) ?s3 = ?c2"
      by (rule retried_config_fixed [where s = s and cfg = cfg and tok = tok])
         (simp_all add: assms(5))
    have base: "baseURL ?s3 = baseURL s" by simp
    have "api_request ?c2 ?s3 =
            transmit (Some (baseURL ?s3)) (request_interceptor (merge_defaults ?c2 ?s3) ?s3) ?s3"
      by (rule api_request_retried) simp
    then show ?thesis by (simp only: fixed base)
  qed
  finally show "api_request cfg s = transmit (Some (baseURL s)) ?c2 ?s3" .
qed

text \<open>
  Two runs. In the first the backend answers 401, then the refresh with a new access token,
  then the retry with 200: the caller gets the retry's response, the new token is stored
  and is the default header, and three requests went out, the last with the new bearer
  token. In the second the backend refuses the refresh with a 500: the refresh call was
  made all the same, with the stored refresh token as its body.
\<close>

theorem refresh_then_retry_witness:
  "\<not> retry example_request
   \<and> getItem ''refreshToken'' (example_client
         [NetResponse 401 JNull, NetResponse 200 (JObj [(''access'', JStr ''new'')]),
          NetResponse 200 (JStr ''ok'')]) = Some ''r1''
   \<and> get_prop (JObj [(''access'', JStr ''new'')]) ''access'' = Some (JStr ''new'')
   \<and> to_string (JStr ''new'') = Some ''new''
   \<and> fst (api_request example_request (example_client
         [NetResponse 401 JNull, NetResponse 200 (JObj [(''access'', JStr ''new'')]),
          NetResponse 200 (JStr ''ok'')])) = Inr \<lparr>status = 200, body = JStr ''ok''\<rparr>
   \<and> localStorage (snd (api_request example_request (example_client
         [NetResponse 401 JNull, NetResponse 200 (JObj [(''access'', JStr ''new'')]),
          NetResponse 200 (JStr ''ok'')]))) ''token'' = Some ''new''
   \<and> default_headers (snd (api_request example_request (example_client
         [NetResponse 401 JNull, NetResponse 200 (JObj [(''access'', JStr ''new'')]),
          NetResponse 200 (JStr ''ok'')]))) ''Authorization'' = Some ''Bearer new''
   \<and> map (\<lambda>x. (fst x, url (snd x), headers (snd x) ''Authorization'', retry (snd x)))
        (sent (snd (api_request example_request (example_client
         [NetResponse 401 JNull, NetResponse 200 (JObj [(''access'', JStr ''new'')]),
          NetResponse 200 (JStr ''ok'')])))) =
       [(Some ''http://localhost:8001/api'', ''/thermostats/'', Some ''Bearer old'', False),
        (None, ''http://localhost:8000/api/token/refresh/'', None, False),
        (Some ''http://localhost:8001/api'', ''/thermostats/'', Some ''Bearer new'', True)]
   \<and> sent (snd (api_request example_request
               (example_client [NetResponse 401 JNull, NetResponse 500 JNull]))) ! 1 =
       (None, request_config POST ''http://localhost:8000/api/token/refresh/''
                (JObj [(''refresh'', JStr ''r1'')]))"
proof -
  let ?s = "example_client
         [NetResponse 401 JNull, NetResponse 200 (JObj [(''access'', JStr ''new'')]),
          NetResponse 200 (JStr ''ok'')]"
  let ?c1 = "request_interceptor (merge_defaults example_request ?s) ?s"
  let ?f = "example_client [NetResponse 401 JNull, NetResponse 500 JNull]"
  let ?d1 = "request_interceptor (merge_defaults example_request ?f) ?f"
  have h: "\<not> retry example_request"
    "network ?s = NetResponse 401 JNull
                   # [NetResponse 200 (JObj [(''access'', JStr ''new'')]), NetResponse 200 (JStr ''ok'')]"
    "getItem ''refreshToken'' ?s = Some ''r1''" "''r1'' \<noteq> []"
    "?c1 = request_interceptor (merge_defaults example_request ?s) ?s"
    by (simp_all add: example_request_def example_client_def create_api_def request_config_def
          getItem_def)
  have ok: "[NetResponse 200 (JObj [(''access'', JStr ''new'')]), NetResponse 200 (JStr ''ok'')] =
              NetResponse 200 (JObj [(''access'', JStr ''new'')]) # [NetResponse 200 (JStr ''ok'')]
            \<and> (200::nat) \<le> 200 \<and> (200::nat) < 300
            \<and> get_prop (JObj [(''access'', JStr ''new'')]) ''access'' = Some (JStr ''new'')
            \<and> to_string (JStr ''new'') = Some ''new''"
    by simp
  from refresh_then_retry [OF h, of 200 "JObj [(''access'', JStr ''new'')]"
         "[NetResponse 200 (JStr ''ok'')]" "JStr ''new''" "''new''"] ok
  have eq: "api_request example_request ?s =
            transmit (Some (baseURL ?s))
              (?c1\<lparr>retry := True,
                  headers := (headers ?c1)(''Authorization'' \<mapsto> ''Bearer '' @ ''new'')\<rparr>)
              (?s\<lparr>network := [NetResponse 200 (JStr ''ok'')],
                 sent := sent ?s @ [(Some (baseURL ?s), ?c1),
                                   (None, request_config POST (refresh_url ?s)
                                            (JObj [(''refresh'', JStr ''r1'')]))],
                 localStorage := (localStorage ?s)(''token'' \<mapsto> ''new''),
                 default_headers := (default_headers ?s)(''Authorization'' \<mapsto> ''Bearer '' @ ''new'')\<rparr>)"
    by blast
  have g: "\<not> retry example_request"
    "network ?f = NetResponse 401 JNull # [NetResponse 500 JNull]"
    "getItem ''refreshToken'' ?f = Some ''r1''" "''r1'' \<noteq> []"
    "?d1 = request_interceptor (merge_defaults example_request ?f) ?f"
    by (simp_all add: example_request_def example_client_def create_api_def request_config_def
          getItem_def)
  from refresh_then_retry [OF g] obtain more where
    "sent (snd (api_request example_request ?f)) =
       sent ?f @ (Some (baseURL ?f), ?d1)
              # (None, request_config POST (refresh_url ?f) (JObj [(''refresh'', JStr ''r1'')]))
              # more"
    by blast
  moreover have "sent ?f = []" "refresh_url ?f = ''http://localhost:8000/api/token/refresh/''"
    by (simp_all add: example_client_def create_api_def refresh_url_def)
  ultimately have post: "sent (snd (api_request example_request ?f)) ! 1 =
       (None, request_config POST ''http://localhost:8000/api/token/refresh/''
                (JObj [(''refresh'', JStr ''r1'')]))"
    by simp
  show ?thesis
    unfolding eq post using h(1,3) ok
    by (simp add: example_request_def example_client_def create_api_def request_config_def
          Let_def merge_defaults_def request_interceptor_def getItem_def transmit_def refresh_url_def)
qed

text \<open>
  The claim as written fails when no usable refresh token is stored: the 401 of a request
  not yet retried leads to no refresh call. Below the only request on the wire is the
  original one, although the network would have answered a refresh; first with no refresh
  token stored, then with the empty string stored.
\<close>

theorem no_refresh_token_no_post_counterexample:
  "map fst (sent (snd (api_request example_request
       (create_api None [''token'' \<mapsto> ''old''] ''/dashboard''
          [NetResponse 401 JNull, NetResponse 200 (JObj [(''access'', JStr ''new'')])])))) =
     [Some ''http://localhost:8001/api'']
   \<and> fst (api_request example_request
       (create_api None [''token'' \<mapsto> ''old''] ''/dashboard''
          [NetResponse 401 JNull, NetResponse 200 (JObj [(''access'', JStr ''new'')])])) =
     Inl (Error ''No refresh token available'')
   \<and> getItem ''refreshToken''
       (create_api None [''token'' \<mapsto> ''old'', ''refreshToken'' \<mapsto> []] ''/dashboard''
          [NetResponse 401 JNull, NetResponse 200 (JObj [(''access'', JStr ''new'')])]) = Some []
   \<and> map fst (sent (snd (api_request example_request
       (create_api None [''token'' \<mapsto> ''old'', ''refreshToken'' \<mapsto> []] ''/dashboard''
          [NetResponse 401 JNull, NetResponse 200 (JObj [(''access'', JStr ''new'')])])))) =
     [Some ''http://localhost:8001/api'']"
  by (simp add: run_defs)

text \<open>
  C3. When the refresh that a 401 triggers fails, whatever it throws, the client removes
  \<open>token\<close> and \<open>refreshToken\<close> from storage, deletes the default \<open>Authorization\<close>
  header, sets the location to \<open>/login\<close> and rejects with what the refresh threw. With no
  refresh token stored the refresh fails at once, with the error
  \<open>No refresh token available\<close>. The same holds when the refresh call succeeds and the
  storing of its \<open>access\<close> throws, for want of a conversion to a string.
\<close>

theorem refresh_failure_logs_out:
  assumes "map_option status resp = Some 401" and "\<not> retry cfg"
  shows "(try_refresh s = (Inl refreshError, s1) \<longrightarrow>
            response_error (AxiosError cfg resp) s =
              (Inl refreshError,
               s1\<lparr>localStorage := (localStorage s1)(''token'' := None, ''refreshToken'' := None),
                  default_headers := (default_headers s1)(''Authorization'' := None),
                  href := ''/login''\<rparr>))
       \<and> (getItem ''refreshToken'' s = None \<longrightarrow>
            response_error (AxiosError cfg resp) s =
              (Inl (Error ''No refresh token available''),
               s\<lparr>localStorage := (localStorage s)(''token'' := None, ''refreshToken'' := None),
                 default_headers := (default_headers s)(''Authorization'' := None),
                 href := ''/login''\<rparr>))
       \<and> (try_refresh s = (Inr access, s1) \<and> to_string access = None \<longrightarrow>
            response_error (AxiosError cfg resp) s =
              (Inl TypeError,
               s1\<lparr>localStorage := (localStorage s1)(''token'' := None, ''refreshToken'' := None),
                  default_headers := (default_headers s1)(''Authorization'' := None),
                  href := ''/login''\<rparr>))"
  using assms
  by (simp add: response_error.simps Let_def refresh_failed_def removeItem_def try_refresh_def)

text \<open>
  Three runs of the handler on a 401: the backend refuses the refresh call with a 401 of
  its own; no refresh token is stored; and the refresh answers with an \<open>access\<close> that is
  an object with an own \<open>toString\<close>. All end logged out, the last without a retry
  although the backend would have answered one.
\<close>

theorem refresh_failure_logs_out_witness:
  "map_option status (Some \<lparr>status = 401, body = JNull\<rparr>) = Some 401
   \<and> \<not> retry example_request
   \<and> fst (try_refresh (example_client [NetResponse 401 (JStr ''expired'')])) =
       Inl (AxiosError (request_config POST ''http://localhost:8000/api/token/refresh/''
                          (JObj [(''refresh'', JStr ''r1'')]))
                       (Some \<lparr>status = 401, body = JStr ''expired''\<rparr>))
   \<and> fst (response_error (AxiosError example_request (Some \<lparr>status = 401, body = JNull\<rparr>))
            (example_client [NetResponse 401 (JStr ''expired'')])) =
       Inl (AxiosError (request_config POST ''http://localhost:8000/api/token/refresh/''
                          (JObj [(''refresh'', JStr ''r1'')]))
                       (Some \<lparr>status = 401, body = JStr ''expired''\<rparr>))
   \<and> localStorage (snd (response_error (AxiosError example_request (Some \<lparr>status = 401, body = JNull\<rparr>))
            (example_client [NetResponse 401 (JStr ''expired'')]))) ''token'' = None
   \<and> localStorage (snd (response_error (AxiosError example_request (Some \<lparr>status = 401, body = JNull\<rparr>))
            (example_client [NetResponse 401 (JStr ''expired'')]))) ''refreshToken'' = None
   \<and> href (snd (response_error (AxiosError example_request (Some \<lparr>status = 401, body = JNull\<rparr>))
            (example_client [NetResponse 401 (JStr ''expired'')]))) = ''/login''
   \<and> getItem ''refreshToken'' (create_api None [''token'' \<mapsto> ''old''] ''/dashboard'' []) = None
   \<and> response_error (AxiosError example_request (Some \<lparr>status = 401, body = JNull\<rparr>))
        (create_api None [''token'' \<mapsto> ''old''] ''/dashboard'' []) =
       (Inl (Error ''No refresh token available''),
        (create_api None [''token'' \<mapsto> ''old''] ''/dashboard'' [])
          \<lparr>localStorage := ([''token'' \<mapsto> ''old''])(''token'' := None, ''refreshToken'' := None),
           default_headers := ([''Content-Type'' \<mapsto> ''application/json''])(''Authorization'' := None),
           href := ''/login''\<rparr>)
   \<and> to_string (JObj [(''toString'', JNum ''1'')]) = None
   \<and> fst (response_error (AxiosError example_request (Some \<lparr>status = 401, body = JNull\<rparr>))
            (example_client [NetResponse 200 (JObj [(''access'', JObj [(''toString'', JNum ''1'')])]),
                             NetResponse 200 (JStr ''ok'')])) = Inl TypeError
   \<and> href (snd (response_error (AxiosError example_request (Some \<lparr>status = 401, body = JNull\<rparr>))
            (example_client [NetResponse 200 (JObj [(''access'', JObj [(''toString'', JNum ''1'')])]),
                             NetResponse 200 (JStr ''ok'')]))) = ''/login''
   \<and> localStorage (snd (response_error (AxiosError example_request (Some \<lparr>status = 401, body = JNull\<rparr>))
            (example_client [NetResponse 200 (JObj [(''access'', JObj [(''toString'', JNum ''1'')])]),
                             NetResponse 200 (JStr ''ok'')]))) ''token'' = None
   \<and> map fst (sent (snd (response_error (AxiosError example_request (Some \<lparr>status = 401, body = JNull\<rparr>))
            (example_client [NetResponse 200 (JObj [(''access'', JObj [(''toString'', JNum ''1'')])]),
                             NetResponse 200 (JStr ''ok'')])))) = [None]"
proof -
  let ?resp = "Some \<lparr>status = 401, body = JNull\<rparr>"
  let ?s = "example_client [NetResponse 401 (JStr ''expired'')]"
  let ?e = "AxiosError (request_config POST ''http://localhost:8000/api/token/refresh/''
                          (JObj [(''refresh'', JStr ''r1'')]))
                       (Some \<lparr>status = 401, body = JStr ''expired''\<rparr>)"
  let ?s1 = "?s\<lparr>network := [],
                sent := [(None, request_config POST ''http://localhost:8000/api/token/refresh/''
                                  (JObj [(''refresh'', JStr ''r1'')]))]\<rparr>"
  let ?n = "create_api None [''token'' \<mapsto> ''old''] ''/dashboard'' []"
  let ?a = "JObj [(''toString'', JNum ''1'')]"
  let ?u = "example_client [NetResponse 200 (JObj [(''access'', ?a)]), NetResponse 200 (JStr ''ok'')]"
  let ?u1 = "?u\<lparr>network := [NetResponse 200 (JStr ''ok'')],
                sent := [(None, request_config POST ''http://localhost:8000/api/token/refresh/''
                                  (JObj [(''refresh'', JStr ''r1'')]))]\<rparr>"
  have h: "map_option status ?resp = Some 401" "\<not> retry example_request"
    by (simp_all add: example_request_def request_config_def)
  have t: "try_refresh ?s = (Inl ?e, ?s1)"
    by (simp add: run_defs)
  have n: "getItem ''refreshToken'' ?n = None"
    by (simp add: getItem_def create_api_def)
  have u: "try_refresh ?u = (Inr ?a, ?u1)" and ts: "to_string ?a = None"
    by (simp_all add: run_defs)
  from refresh_failure_logs_out [OF h, of ?s ?e ?s1] t
  have a: "response_error (AxiosError example_request ?resp) ?s =
             (Inl ?e, ?s1\<lparr>localStorage := (localStorage ?s1)(''token'' := None, ''refreshToken'' := None),
                  default_headers := (default_headers ?s1)(''Authorization'' := None),
                  href := ''/login''\<rparr>)"
    by blast
  from refresh_failure_logs_out [OF h, of ?n] n
  have b: "response_error (AxiosError example_request ?resp) ?n =
             (Inl (Error ''No refresh token available''),
               ?n\<lparr>localStorage := (localStorage ?n)(''token'' := None, ''refreshToken'' := None),
                 default_headers := (default_headers ?n)(''Authorization'' := None),
                 href := ''/login''\<rparr>)"
    by blast
  from refresh_failure_logs_out [OF h, of ?u _ ?u1 ?a] u ts
  have d: "response_error (AxiosError example_request ?resp) ?u =
             (Inl TypeError,
               ?u1\<lparr>localStorage := (localStorage ?u1)(''token'' := None, ''refreshToken'' := None),
                 default_headers := (default_headers ?u1)(''Authorization'' := None),
                 href := ''/login''\<rparr>)"
    by blast
  have c: "localStorage ?n = [''token'' \<mapsto> ''old'']"
    "default_headers ?n = [''Content-Type'' \<mapsto> ''application/json'']"
    by (simp_all add: create_api_def)
  show ?thesis
    unfolding a b c d using h n t ts by simp
qed

text \<open>
  C2. For every request the refresh-and-retry cycle runs at most once. One call of \<open>api\<close>
  puts on the wire the request itself and then nothing more, or one refresh call, or one
  refresh call and one re-issue of the request; the re-issued request carries the retry
  flag, so at most one refresh call is made. A request that already carries the flag is sent
  and nothing more, and a 401 for it is rejected with its error, the state untouched.
\<close>

theorem refresh_cycle_at_most_once:
  "\<exists>c1 new. sent (snd (api_request cfg s)) = sent s @ (Some (baseURL s), c1) # new
     \<and> retry c1 = retry cfg
     \<and> (new = [] \<or> (\<exists>rc. new = [(None, rc)])
          \<or> (\<exists>rc c2. new = [(None, rc), (Some (baseURL s), c2)] \<and> retry c2))
     \<and> length (filter (\<lambda>x. fst x = None) new) \<le> 1
     \<and> (retry cfg \<longrightarrow> new = [])
     \<and> (retry cfg \<longrightarrow> response_error (AxiosError cfg resp) s = (Inl (AxiosError cfg resp), s))"
proof -
  from api_request_sent [of cfg s] obtain new where
    n: "sent (snd (api_request cfg s)) =
          sent s @ (Some (baseURL s), request_interceptor (merge_defaults cfg s) s) # new"
    and sh: "new = []
      \<or> (\<exists>rt. new = [(None, request_config POST (refresh_url s) (JObj [(''refresh'', JStr rt)]))])
      \<or> (\<exists>rt c2. new = [(None, request_config POST (refresh_url s) (JObj [(''refresh'', JStr rt)])),
                          (Some (baseURL s), c2)] \<and> retry c2
             \<and> url c2 = url cfg \<and> method c2 = method cfg \<and> data c2 = data cfg)"
    and r: "retry cfg \<longrightarrow> new = []"
    by blast
  from sh have "length (filter (\<lambda>x. fst x = None) new) \<le> 1" by auto
  moreover from sh have "new = [] \<or> (\<exists>rc. new = [(None, rc)])
          \<or> (\<exists>rc c2. new = [(None, rc), (Some (baseURL s), c2)] \<and> retry c2)" by blast
  ultimately show ?thesis
    using n r interceptor_keeps(1) [of cfg s] response_error_retried [of cfg resp s] by blast
qed

text \<open>
  A request that carries the flag, against a backend that answers 401 and would accept a
  refresh: one request goes out, and the handler returns the 401 as it is.
\<close>

theorem refresh_cycle_at_most_once_witness:
  "retry (example_request\<lparr>retry := True\<rparr>)
   \<and> length (sent (snd (api_request (example_request\<lparr>retry := True\<rparr>)
        (example_client [NetResponse 401 JNull, NetResponse 200 (JObj [(''access'', JStr ''new'')])])))) = 1
   \<and> response_error (AxiosError (example_request\<lparr>retry := True\<rparr>) (Some \<lparr>status = 401, body = JNull\<rparr>))
        (example_client [NetResponse 200 (JObj [(''access'', JStr ''new'')])]) =
       (Inl (AxiosError (example_request\<lparr>retry := True\<rparr>) (Some \<lparr>status = 401, body = JNull\<rparr>)),
        example_client [NetResponse 200 (JObj [(''access'', JStr ''new'')])])"
proof -
  let ?c = "example_request\<lparr>retry := True\<rparr>"
  let ?s = "example_client [NetResponse 401 JNull, NetResponse 200 (JObj [(''access'', JStr ''new'')])]"
  let ?s' = "example_client [NetResponse 200 (JObj [(''access'', JStr ''new'')])]"
  have r: "retry ?c" by simp
  have e: "sent ?s = []" by (simp add: example_client_def create_api_def)
  from refresh_cycle_at_most_once [of ?c ?s] r obtain c1 where
    "sent (snd (api_request ?c ?s)) = sent ?s @ [(Some (baseURL ?s), c1)]"
    by auto
  with e have "length (sent (snd (api_request ?c ?s))) = 1" by simp
  moreover from refresh_cycle_at_most_once [of ?c ?s' "Some \<lparr>status = 401, body = JNull\<rparr>"] r
  have "response_error (AxiosError ?c (Some \<lparr>status = 401, body = JNull\<rparr>)) ?s' =
          (Inl (AxiosError ?c (Some \<lparr>status = 401, body = JNull\<rparr>)), ?s')"
    by blast
  ultimately show ?thesis using r by simp
qed

section \<open>The two default origins\<close>

text \<open>
  C8. With \<open>REACT_APP_API_URL\<close> unset the client's base URL is
  \<open>http://localhost:8001/api\<close>, while the refresh call goes to
  \<open>http://localhost:8000/api/token/refresh/\<close>: every request a call of \<open>api\<close> puts on
  the wire is either sent through the client with the base of port 8001, or is the refresh
  call to port 8000.
\<close>

theorem default_origins_differ:
  "baseURL (create_api None store loc net) = ''http://localhost:8001/api''
   \<and> refresh_url (create_api None store loc net) = ''http://localhost:8000/api/token/refresh/''
   \<and> (\<forall>x \<in> set (sent (snd (api_request cfg (create_api None store loc net)))).
        fst x = Some ''http://localhost:8001/api''
        \<or> fst x = None \<and> url (snd x) = ''http://localhost:8000/api/token/refresh/'')"
proof -
  let ?s = "create_api None store loc net"
  have b: "baseURL ?s = ''http://localhost:8001/api''" and e: "sent ?s = []"
    and u: "refresh_url ?s = ''http://localhost:8000/api/token/refresh/''"
    by (simp_all add: create_api_def refresh_url_def)
  from api_request_sent [of cfg ?s] b e u show ?thesis
    by (auto simp: request_config_def)
qed

text \<open>A run with a refresh: the second request on the wire is the one to port 8000.\<close>

theorem default_origins_differ_witness:
  "sent (snd (api_request example_request
      (create_api None [''token'' \<mapsto> ''old'', ''refreshToken'' \<mapsto> ''r1''] ''/dashboard''
         [NetResponse 401 JNull, NetResponse 401 JNull]))) ! 1
     \<in> set (sent (snd (api_request example_request
      (create_api None [''token'' \<mapsto> ''old'', ''refreshToken'' \<mapsto> ''r1''] ''/dashboard''
         [NetResponse 401 JNull, NetResponse 401 JNull]))))
   \<and> fst (sent (snd (api_request example_request
      (create_api None [''token'' \<mapsto> ''old'', ''refreshToken'' \<mapsto> ''r1''] ''/dashboard''
         [NetResponse 401 JNull, NetResponse 401 JNull]))) ! 1) = None
   \<and> url (snd (sent (snd (api_request example_request
      (create_api None [''token'' \<mapsto> ''old'', ''refreshToken'' \<mapsto> ''r1''] ''/dashboard''
         [NetResponse 401 JNull, NetResponse 401 JNull]))) ! 1)) =
       ''http://localhost:8000/api/token/refresh/''
   \<and> baseURL (create_api None [''token'' \<mapsto> ''old'', ''refreshToken'' \<mapsto> ''r1''] ''/dashboard''
         [NetResponse 401 JNull, NetResponse 401 JNull]) = ''http://localhost:8001/api''"
proof -
  let ?s = "create_api None [''token'' \<mapsto> ''old'', ''refreshToken'' \<mapsto> ''r1''] ''/dashboard''
         [NetResponse 401 JNull, NetResponse 401 JNull]"
  let ?log = "sent (snd (api_request example_request ?s))"
  have len: "length ?log = 2" and n: "fst (?log ! 1) = None"
    by (simp_all add: run_defs)
  from len have m: "?log ! 1 \<in> set ?log" by simp
  from default_origins_differ [of "[''token'' \<mapsto> ''old'', ''refreshToken'' \<mapsto> ''r1'']" "''/dashboard''"
         "[NetResponse 401 JNull, NetResponse 401 JNull]" example_request]
  have b: "baseURL ?s = ''http://localhost:8001/api''"
    and all: "\<forall>x \<in> set ?log. fst x = Some ''http://localhost:8001/api''
        \<or> fst x = None \<and> url (snd x) = ''http://localhost:8000/api/token/refresh/''"
    by blast+
  from all m have "fst (?log ! 1) = Some ''http://localhost:8001/api''
        \<or> fst (?log ! 1) = None \<and> url (snd (?log ! 1)) = ''http://localhost:8000/api/token/refresh/''"
    by blast
  with n have "url (snd (?log ! 1)) = ''http://localhost:8000/api/token/refresh/''" by simp
  with m n b show ?thesis by simp
qed

section \<open>The API calls as requests\<close>

lemmas wrapper_defs = login_def register_def getUserProfile_def getThermostats_def
  getThermostatsByUser_def getThermostatsByProperty_def getThermostat_def addThermostat_def
  updateThermostat_def deleteThermostat_def setThermostatTemperature_def setThermostatMode_def
  getProperties_def getProperty_def addProperty_def updateProperty_def deleteProperty_def
  getCalendarEvents_def addCalendarEvent_def updateCalendarEvent_def deleteCalendarEvent_def
  getStatistics_def getPropertyStatistics_def getThermostatStatistics_def
  api_get_def api_post_def api_put_def api_delete_def

lemma invoke_endpoint:
  "invoke c s =
     (case endpoint_request c of
        Inl e \<Rightarrow> (Inl e, s)
      | Inr cfg \<Rightarrow> response_data (api_request cfg s))"
  by (cases c) (simp_all add: wrapper_defs split: option.split)

text \<open>
  C4, as amended. Every wrapper makes at most one call of the client and returns the body
  of its response, or rejects with its error: the call is the one of the table
  \<open>endpoint_request\<close>. When the backend answers that request with a 2xx, exactly one
  request goes out and the response body is the result. Only \<open>addCalendarEvent\<close> can end
  without a call. What the wrappers add to their arguments is this: \<open>login\<close> sends its
  email as \<open>username\<close>; the two setters wrap their value in an object; an omitted time
  range is \<open>month\<close>; and \<open>addCalendarEvent\<close> reads \<open>eventData.property\<close> first, rejects
  with a TypeError when the event data are \<open>null\<close> or \<open>undefined\<close>, with
  \<open>eventData.property is required\<close> when the property is falsy, and with a TypeError
  when the property has no conversion to a string, each time without a call; otherwise it
  posts the event data unchanged to the calendar of that property.
\<close>

theorem wrappers_issue_one_request:
  "invoke c s =
     (case endpoint_request c of
        Inl e \<Rightarrow> (Inl e, s)
      | Inr cfg \<Rightarrow> response_data (api_request cfg s))
   \<and> (endpoint_request c = Inr cfg \<and> network s = NetResponse st d # rest \<and> 200 \<le> st \<and> st < 300 \<longrightarrow>
        invoke c s =
          (Inr d, s\<lparr>network := rest,
                    sent := sent s @ [(Some (baseURL s),
                                       request_interceptor (merge_defaults cfg s) s)]\<rparr>))
   \<and> ((\<exists>r. endpoint_request c = Inr r) \<or> (\<exists>eventData. c = AddCalendarEvent eventData))
   \<and> login email password s =
       response_data (api_request (request_config POST ''/token/''
         (JObj [(''username'', JStr email), (''password'', JStr password)])) s)
   \<and> setThermostatTemperature id' temperature s =
       response_data (api_request (request_config POST (''/thermostats/'' @ id' @ ''/set_temperature/'')
         (JObj [(''temperature'', JNum temperature)])) s)
   \<and> setThermostatMode id' mode s =
       response_data (api_request (request_config POST (''/thermostats/'' @ id' @ ''/set_mode/'')
         (JObj [(''mode'', JStr mode)])) s)
   \<and> getStatistics None s =
       response_data (api_request (request_config GET ''/statistics/?period=month'' JUndefined) s)
   \<and> (get_prop eventData ''property'' = None \<longrightarrow>
        addCalendarEvent eventData s = (Inl TypeError, s))
   \<and> (get_prop eventData ''property'' = Some v \<and> \<not> truthy v \<longrightarrow>
        addCalendarEvent eventData s = (Inl (Error ''eventData.property is required''), s))
   \<and> (get_prop eventData ''property'' = Some v \<and> truthy v \<and> to_string v = None \<longrightarrow>
        addCalendarEvent eventData s = (Inl TypeError, s))
   \<and> (get_prop eventData ''property'' = Some v \<and> truthy v \<and> to_string v = Some propertyId \<longrightarrow>
        addCalendarEvent eventData s =
          response_data (api_request (request_config POST (''/properties/'' @ propertyId @ ''/calendar/'')
            eventData) s))"
proof (intro conjI impI)
  show "invoke c s =
     (case endpoint_request c of
        Inl e \<Rightarrow> (Inl e, s)
      | Inr cfg \<Rightarrow> response_data (api_request cfg s))"
    by (rule invoke_endpoint)
next
  assume "endpoint_request c = Inr cfg \<and> network s = NetResponse st d # rest \<and> 200 \<le> st \<and> st < 300"
  then show "invoke c s =
          (Inr d, s\<lparr>network := rest,
                    sent := sent s @ [(Some (baseURL s),
                                       request_interceptor (merge_defaults cfg s) s)]\<rparr>)"
    by (simp add: invoke_endpoint api_request_ok response_data_def)
next
  show "(\<exists>r. endpoint_request c = Inr r) \<or> (\<exists>eventData. c = AddCalendarEvent eventData)"
    by (cases c) simp_all
next
  show "login email password s =
       response_data (api_request (request_config POST ''/token/''
         (JObj [(''username'', JStr email), (''password'', JStr password)])) s)"
    by (simp add: login_def api_post_def)
next
  show "setThermostatTemperature id' temperature s =
       response_data (api_request (request_config POST (''/thermostats/'' @ id' @ ''/set_temperature/'')
         (JObj [(''temperature'', JNum temperature)])) s)"
    by (simp add: setThermostatTemperature_def api_post_def)
next
  show "setThermostatMode id' mode s =
       response_data (api_request (request_config POST (''/thermostats/'' @ id' @ ''/set_mode/'')
         (JObj [(''mode'', JStr mode)])) s)"
    by (simp add: setThermostatMode_def api_post_def)
next
  show "getStatistics None s =
       response_data (api_request (request_config GET ''/statistics/?period=month'' JUndefined) s)"
    by (simp add: getStatistics_def api_get_def)
next
  assume "get_prop eventData ''property'' = None"
  then show "addCalendarEvent eventData s = (Inl TypeError, s)"
    by (simp add: addCalendarEvent_def)
next
  assume "get_prop eventData ''property'' = Some v \<and> \<not> truthy v"
  then show "addCalendarEvent eventData s = (Inl (Error ''eventData.property is required''), s)"
    by (simp add: addCalendarEvent_def)
next
  assume "get_prop eventData ''property'' = Some v \<and> truthy v \<and> to_string v = None"
  then show "addCalendarEvent eventData s = (Inl TypeError, s)"
    by (simp add: addCalendarEvent_def)
next
  assume "get_prop eventData ''property'' = Some v \<and> truthy v \<and> to_string v = Some propertyId"
  then show "addCalendarEvent eventData s =
          response_data (api_request (request_config POST (''/properties/'' @ propertyId @ ''/calendar/'')
            eventData) s)"
    by (simp add: addCalendarEvent_def api_post_def)
qed

text \<open>
  \<open>login\<close> against a backend that answers 200: one request, the body returned. And
  \<open>addCalendarEvent\<close> for a property that is an object with an own \<open>toString\<close>, and for
  one that is the number 7.
\<close>

theorem wrappers_issue_one_request_witness:
  "endpoint_request (Login ''ann@example.com'' ''pw'') =
     Inr (request_config POST ''/token/''
            (JObj [(''username'', JStr ''ann@example.com''), (''password'', JStr ''pw'')]))
   \<and> network (example_client [NetResponse 200 (JObj [(''access'', JStr ''a1'')])]) =
       NetResponse 200 (JObj [(''access'', JStr ''a1'')]) # []
   \<and> fst (login ''ann@example.com'' ''pw'' (example_client [NetResponse 200 (JObj [(''access'', JStr ''a1'')])])) =
       Inr (JObj [(''access'', JStr ''a1'')])
   \<and> length (sent (snd (login ''ann@example.com'' ''pw''
          (example_client [NetResponse 200 (JObj [(''access'', JStr ''a1'')])])))) = 1
   \<and> get_prop JNull ''property'' = None
   \<and> addCalendarEvent JNull (example_client [NetResponse 201 JNull]) =
       (Inl TypeError, example_client [NetResponse 201 JNull])
   \<and> get_prop (JObj [(''property'', JNum ''0'')]) ''property'' = Some (JNum ''0'')
   \<and> \<not> truthy (JNum ''0'')
   \<and> addCalendarEvent (JObj [(''property'', JNum ''0'')]) (example_client [NetResponse 201 JNull]) =
       (Inl (Error ''eventData.property is required''), example_client [NetResponse 201 JNull])
   \<and> to_string (JObj [(''toString'', JNum ''1'')]) = None
   \<and> addCalendarEvent (JObj [(''property'', JObj [(''toString'', JNum ''1'')])])
        (example_client [NetResponse 201 JNull]) =
       (Inl TypeError, example_client [NetResponse 201 JNull])
   \<and> to_string (JNum ''7'') = Some ''7''
   \<and> map (url \<circ> snd) (sent (snd (addCalendarEvent (JObj [(''property'', JNum ''7'')])
        (example_client [NetResponse 201 JNull])))) = [''/properties/7/calendar/'']"
proof -
  let ?s = "example_client [NetResponse 200 (JObj [(''access'', JStr ''a1'')])]"
  let ?t = "example_client [NetResponse 201 JNull]"
  let ?cfg = "request_config POST ''/token/''
            (JObj [(''username'', JStr ''ann@example.com''), (''password'', JStr ''pw'')])"
  let ?o = "JObj [(''toString'', JNum ''1'')]"
  have h: "endpoint_request (Login ''ann@example.com'' ''pw'') = Inr ?cfg
      \<and> network ?s = NetResponse 200 (JObj [(''access'', JStr ''a1'')]) # []
      \<and> (200::nat) \<le> 200 \<and> (200::nat) < 300"
    by (simp add: example_client_def create_api_def)
  with wrappers_issue_one_request
    [where c = "Login ''ann@example.com'' ''pw''" and s = ?s and cfg = ?cfg and st = 200
       and d = "JObj [(''access'', JStr ''a1'')]" and rest = "[]"]
  have "invoke (Login ''ann@example.com'' ''pw'') ?s =
          (Inr (JObj [(''access'', JStr ''a1'')]),
           ?s\<lparr>network := [],
               sent := sent ?s @ [(Some (baseURL ?s), request_interceptor (merge_defaults ?cfg ?s) ?s)]\<rparr>)"
    by blast
  then have l: "login ''ann@example.com'' ''pw'' ?s =
          (Inr (JObj [(''access'', JStr ''a1'')]),
           ?s\<lparr>network := [],
               sent := sent ?s @ [(Some (baseURL ?s), request_interceptor (merge_defaults ?cfg ?s) ?s)]\<rparr>)"
    by simp
  have e: "sent ?s = []" by (simp add: example_client_def create_api_def)
  have p1: "get_prop JNull ''property'' = None" by simp
  have p2: "get_prop (JObj [(''property'', JNum ''0'')]) ''property'' = Some (JNum ''0'') \<and> \<not> truthy (JNum ''0'')"
    by simp
  have p3: "get_prop (JObj [(''property'', ?o)]) ''property'' = Some ?o \<and> truthy ?o \<and> to_string ?o = None"
    by simp
  have p4: "get_prop (JObj [(''property'', JNum ''7'')]) ''property'' = Some (JNum ''7'')
      \<and> truthy (JNum ''7'') \<and> to_string (JNum ''7'') = Some ''7''"
    by simp
  from p1 wrappers_issue_one_request [where eventData = JNull and s = ?t]
  have a1: "addCalendarEvent JNull ?t = (Inl TypeError, ?t)" by blast
  from p2 wrappers_issue_one_request
         [where eventData = "JObj [(''property'', JNum ''0'')]" and s = ?t and v = "JNum ''0''"]
  have a2: "addCalendarEvent (JObj [(''property'', JNum ''0'')]) ?t =
              (Inl (Error ''eventData.property is required''), ?t)" by blast
  from p3 wrappers_issue_one_request
         [where eventData = "JObj [(''property'', ?o)]" and s = ?t and v = ?o]
  have a3: "addCalendarEvent (JObj [(''property'', ?o)]) ?t = (Inl TypeError, ?t)" by blast
  from p4 wrappers_issue_one_request
         [where eventData = "JObj [(''property'', JNum ''7'')]" and s = ?t and v = "JNum ''7''"
            and propertyId = "''7''"]
  have a4: "addCalendarEvent (JObj [(''property'', JNum ''7'')]) ?t =
              response_data (api_request (request_config POST (''/properties/'' @ ''7'' @ ''/calendar/'')
                (JObj [(''property'', JNum ''7'')])) ?t)" by blast
  have n: "network ?t = NetResponse 201 JNull # []" "sent ?t = []"
    by (simp_all add: example_client_def create_api_def)
  have a5: "map (url \<circ> snd) (sent (snd (addCalendarEvent (JObj [(''property'', JNum ''7'')]) ?t))) =
              [''/properties/7/calendar/'']"
    unfolding a4 using n
    by (simp add: api_request_ok [where st = 201 and d = JNull and rest = "[]"] response_data_def
          interceptor_keeps request_config_def)
  show ?thesis
    unfolding l a1 a2 a3 a5 using h e p2 p3 p4 by simp
qed

text \<open>
  The claim as written fails twice. \<open>addCalendarEvent\<close> validates: for event data without
  \<open>property\<close> it rejects with its own error and makes no HTTP call, although the backend
  would have answered. \<open>login\<close> renames: the body it sends carries the email under
  \<open>username\<close>.
\<close>

theorem wrappers_validate_and_rename_counterexample:
  "fst (addCalendarEvent (JObj [(''title'', JStr ''Stay'')]) (example_client [NetResponse 201 JNull])) =
     Inl (Error ''eventData.property is required'')
   \<and> sent (snd (addCalendarEvent (JObj [(''title'', JStr ''Stay'')])
                  (example_client [NetResponse 201 JNull]))) = []
   \<and> map (data \<circ> snd) (sent (snd (login ''ann@example.com'' ''pw''
                  (example_client [NetResponse 200 JNull])))) =
       [JObj [(''username'', JStr ''ann@example.com''), (''password'', JStr ''pw'')]]"
  by (simp add: addCalendarEvent_def login_def api_post_def response_data_def run_defs)

section \<open>Errors on the vendor accounts page\<close>

lemmas page_defs = fetchAccounts_def handleCieloCreate_def handleNestCreate_def
  handleNetHomeCreate_def refreshCielo_def refreshNest_def refreshNetHome_def set_error_from_def
  Let_def

text \<open>
  C7, as amended. When loading the vendor accounts fails, and when creating a vendor
  account fails, with a thrown value other than \<open>null\<close> and \<open>undefined\<close>, the page catches
  that value and puts into \<open>error\<close>, which it renders inline, the value's \<open>message\<close> if it
  is truthy and the fixed fallback of the action if not; the function completes, nothing is
  thrown on, and \<open>fetchAccounts\<close> ends with \<open>loading\<close> off. A failure of the reload that
  follows a successful creation is caught in the same way, with the fallback of the
  creation and the form already cleared. The four functions reject in one case only: a
  thrown \<open>null\<close> or \<open>undefined\<close>.
\<close>

theorem vendor_errors_shown_inline:
  "(get_prop err ''message'' = Some m \<longrightarrow>
      fetchAccounts (Inl err) p =
        (Inr (), p\<lparr>error := (if truthy m then m else JStr ''Failed to load vendor accounts''),
                   loading := False\<rparr>))
   \<and> (get_prop err ''message'' = Some m \<and> cieloApiKey p \<noteq> [] \<and>
       createKey \<lparr>api_key = cieloApiKey p,
                  account_name = or_undefined (cieloAccountName p),
                  property_id = number_or_undefined (cieloPropertyId p)\<rparr> = Inl err \<longrightarrow>
       handleCieloCreate createKey listed p =
         (Inr (), p\<lparr>error := (if truthy m then m else JStr ''Failed to create Cielo account'')\<rparr>))
   \<and> (get_prop err ''message'' = Some m \<and> cieloApiKey p \<noteq> [] \<and>
       createKey \<lparr>api_key = cieloApiKey p,
                  account_name = or_undefined (cieloAccountName p),
                  property_id = number_or_undefined (cieloPropertyId p)\<rparr> = Inr () \<longrightarrow>
       handleCieloCreate createKey (Inl err) p =
         (Inr (), p\<lparr>cieloApiKey := [], cieloAccountName := [], cieloPropertyId := [],
                    error := (if truthy m then m else JStr ''Failed to create Cielo account'')\<rparr>))
   \<and> (get_prop err ''message'' = Some m \<and>
       nestAccessToken p \<noteq> [] \<and> nestRefreshToken p \<noteq> [] \<and> nestExpiresAt p \<noteq> [] \<and>
       createNest \<lparr>access_token = nestAccessToken p,
                   refresh_token = nestRefreshToken p,
                   expires_at = nestExpiresAt p,
                   nest_account_name = or_undefined (nestAccountName p),
                   nest_property_id = number_or_undefined (nestPropertyId p)\<rparr> = Inl err \<longrightarrow>
       handleNestCreate createNest listed p =
         (Inr (), p\<lparr>error := (if truthy m then m else JStr ''Failed to create Nest account'')\<rparr>))
   \<and> (get_prop err ''message'' = Some m \<and>
       nestAccessToken p \<noteq> [] \<and> nestRefreshToken p \<noteq> [] \<and> nestExpiresAt p \<noteq> [] \<and>
       createNest \<lparr>access_token = nestAccessToken p,
                   refresh_token = nestRefreshToken p,
                   expires_at = nestExpiresAt p,
                   nest_account_name = or_undefined (nestAccountName p),
                   nest_property_id = number_or_undefined (nestPropertyId p)\<rparr> = Inr () \<longrightarrow>
       handleNestCreate createNest (Inl err) p =
         (Inr (), p\<lparr>nestAccessToken := [], nestRefreshToken := [], nestExpiresAt := [],
                    nestAccountName := [], nestPropertyId := [],
                    error := (if truthy m then m else JStr ''Failed to create Nest account'')\<rparr>))
   \<and> (get_prop err ''message'' = Some m \<and> nethomeApiKey p \<noteq> [] \<and>
       createKey \<lparr>api_key = nethomeApiKey p,
                  account_name = or_undefined (nethomeAccountName p),
                  property_id = number_or_undefined (nethomePropertyId p)\<rparr> = Inl err \<longrightarrow>
       handleNetHomeCreate createKey listed p =
         (Inr (), p\<lparr>error := (if truthy m then m else JStr ''Failed to create NetHome account'')\<rparr>))
   \<and> (get_prop err ''message'' = Some m \<and> nethomeApiKey p \<noteq> [] \<and>
       createKey \<lparr>api_key = nethomeApiKey p,
                  account_name = or_undefined (nethomeAccountName p),
                  property_id = number_or_undefined (nethomePropertyId p)\<rparr> = Inr () \<longrightarrow>
       handleNetHomeCreate createKey (Inl err) p =
         (Inr (), p\<lparr>nethomeApiKey := [], nethomeAccountName := [], nethomePropertyId := [],
                    error := (if truthy m then m else JStr ''Failed to create NetHome account'')\<rparr>))
   \<and> (fst (fetchAccounts settled p) = Inr ()
        \<or> fst (fetchAccounts settled p) = Inl TypeError
          \<and> (settled = Inl JNull \<or> settled = Inl JUndefined))
   \<and> (fst (handleCieloCreate createKey listed p) = Inr ()
        \<or> fst (handleCieloCreate createKey listed p) = Inl TypeError
          \<and> (\<exists>e. (e = JNull \<or> e = JUndefined) \<and>
                 (createKey \<lparr>api_key = cieloApiKey p,
                             account_name = or_undefined (cieloAccountName p),
                             property_id = number_or_undefined (cieloPropertyId p)\<rparr> = Inl e
                  \<or> listed = Inl e)))
   \<and> (fst (handleNestCreate createNest listed p) = Inr ()
        \<or> fst (handleNestCreate createNest listed p) = Inl TypeError
          \<and> (\<exists>e. (e = JNull \<or> e = JUndefined) \<and>
                 (createNest \<lparr>access_token = nestAccessToken p,
                              refresh_token = nestRefreshToken p,
                              expires_at = nestExpiresAt p,
                              nest_account_name = or_undefined (nestAccountName p),
                              nest_property_id = number_or_undefined (nestPropertyId p)\<rparr> = Inl e
                  \<or> listed = Inl e)))
   \<and> (fst (handleNetHomeCreate createKey listed p) = Inr ()
        \<or> fst (handleNetHomeCreate createKey listed p) = Inl TypeError
          \<and> (\<exists>e. (e = JNull \<or> e = JUndefined) \<and>
                 (createKey \<lparr>api_key = nethomeApiKey p,
                             account_name = or_undefined (nethomeAccountName p),
                             property_id = number_or_undefined (nethomePropertyId p)\<rparr> = Inl e
                  \<or> listed = Inl e)))"
proof -
  have nullish: "\<And>e. get_prop e ''message'' = None \<Longrightarrow> e = JNull \<or> e = JUndefined"
  proof -
    fix e assume "get_prop e ''message'' = None"
    then show "e = JNull \<or> e = JUndefined"
      by (cases e) (simp_all split: option.splits)
  qed
  have fetch: "fst (fetchAccounts settled p) = Inr ()
        \<or> fst (fetchAccounts settled p) = Inl TypeError
          \<and> (settled = Inl JNull \<or> settled = Inl JUndefined)"
    by (auto simp: page_defs split: sum.splits option.splits prod.splits dest: nullish)
  have cielo: "fst (handleCieloCreate createKey listed p) = Inr ()
        \<or> fst (handleCieloCreate createKey listed p) = Inl TypeError
          \<and> (\<exists>e. (e = JNull \<or> e = JUndefined) \<and>
                 (createKey \<lparr>api_key = cieloApiKey p,
                             account_name = or_undefined (cieloAccountName p),
                             property_id = number_or_undefined (cieloPropertyId p)\<rparr> = Inl e
                  \<or> listed = Inl e))"
    by (auto simp: page_defs split: sum.splits option.splits prod.splits dest: nullish)
  have nest: "fst (handleNestCreate createNest listed p) = Inr ()
        \<or> fst (handleNestCreate createNest listed p) = Inl TypeError
          \<and> (\<exists>e. (e = JNull \<or> e = JUndefined) \<and>
                 (createNest \<lparr>access_token = nestAccessToken p,
                              refresh_token = nestRefreshToken p,
                              expires_at = nestExpiresAt p,
                              nest_account_name = or_undefined (nestAccountName p),
                              nest_property_id = number_or_undefined (nestPropertyId p)\<rparr> = Inl e
                  \<or> listed = Inl e))"
    by (auto simp: page_defs split: sum.splits option.splits prod.splits dest: nullish)
  have nethome: "fst (handleNetHomeCreate createKey listed p) = Inr ()
        \<or> fst (handleNetHomeCreate createKey listed p) = Inl TypeError
          \<and> (\<exists>e. (e = JNull \<or> e = JUndefined) \<and>
                 (createKey \<lparr>api_key = nethomeApiKey p,
                             account_name = or_undefined (nethomeAccountName p),
                             property_id = number_or_undefined (nethomePropertyId p)\<rparr> = Inl e
                  \<or> listed = Inl e))"
    by (auto simp: page_defs split: sum.splits option.splits prod.splits dest: nullish)
  show ?thesis
    apply (intro conjI)
              apply (simp_all only: fetch cielo nest nethome)
    apply (simp_all add: page_defs)
    done
qed

text \<open>
  A Cielo account whose creation is refused with a message, one refused by an error without
  a message, and one created whose reload then fails; and a load that fails with a network
  error. The page shows the message, the fallback, the message of the reload, and the
  message of the load.
\<close>

theorem vendor_errors_shown_inline_witness:
  "cieloApiKey (initial_page\<lparr>cieloApiKey := ''k-123''\<rparr>) \<noteq> []
   \<and> get_prop (JObj [(''message'', JStr ''Invalid API key'')]) ''message'' = Some (JStr ''Invalid API key'')
   \<and> handleCieloCreate (\<lambda>payload. Inl (JObj [(''message'', JStr ''Invalid API key'')])) (Inr (JArr []))
        (initial_page\<lparr>cieloApiKey := ''k-123''\<rparr>) =
       (Inr (), initial_page\<lparr>cieloApiKey := ''k-123'', error := JStr ''Invalid API key''\<rparr>)
   \<and> get_prop (JObj []) ''message'' = Some JUndefined
   \<and> handleCieloCreate (\<lambda>payload. Inl (JObj [])) (Inr (JArr []))
        (initial_page\<lparr>cieloApiKey := ''k-123''\<rparr>) =
       (Inr (), initial_page\<lparr>cieloApiKey := ''k-123'', error := JStr ''Failed to create Cielo account''\<rparr>)
   \<and> handleCieloCreate (\<lambda>payload. Inr ()) (Inl (JObj [(''message'', JStr ''Network Error'')]))
        (initial_page\<lparr>cieloApiKey := ''k-123''\<rparr>) =
       (Inr (), initial_page\<lparr>error := JStr ''Network Error''\<rparr>)
   \<and> fetchAccounts (Inl (JObj [(''message'', JStr ''Network Error'')])) initial_page =
       (Inr (), initial_page\<lparr>error := JStr ''Network Error''\<rparr>)"
proof -
  let ?p = "initial_page\<lparr>cieloApiKey := ''k-123''\<rparr>"
  let ?inv = "JObj [(''message'', JStr ''Invalid API key'')]"
  let ?net = "JObj [(''message'', JStr ''Network Error'')]"
  let ?refuse = "\<lambda>payload :: key_payload. (Inl ?inv :: json + unit)"
  let ?silent = "\<lambda>payload :: key_payload. (Inl (JObj []) :: json + unit)"
  let ?accept = "\<lambda>payload :: key_payload. (Inr () :: json + unit)"
  have k: "cieloApiKey ?p \<noteq> []" by simp
  have m1: "get_prop ?inv ''message'' = Some (JStr ''Invalid API key'')"
    and m2: "get_prop (JObj []) ''message'' = Some JUndefined"
    and m3: "get_prop ?net ''message'' = Some (JStr ''Network Error'')"
    by simp_all
  from vendor_errors_shown_inline
         [where err = ?inv and m = "JStr ''Invalid API key''" and p = ?p and createKey = ?refuse
            and listed = "Inr (JArr [])"] k m1
  have a: "handleCieloCreate ?refuse (Inr (JArr [])) ?p =
             (Inr (), ?p\<lparr>error := (if truthy (JStr ''Invalid API key'') then JStr ''Invalid API key''
                                     else JStr ''Failed to create Cielo account'')\<rparr>)"
    by blast
  from vendor_errors_shown_inline
         [where err = "JObj []" and m = JUndefined and p = ?p and createKey = ?silent
            and listed = "Inr (JArr [])"] k m2
  have b: "handleCieloCreate ?silent (Inr (JArr [])) ?p =
             (Inr (), ?p\<lparr>error := (if truthy JUndefined then JUndefined
                                     else JStr ''Failed to create Cielo account'')\<rparr>)"
    by blast
  from vendor_errors_shown_inline
         [where err = ?net and m = "JStr ''Network Error''" and p = ?p and createKey = ?accept] k m3
  have c: "handleCieloCreate ?accept (Inl ?net) ?p =
             (Inr (), ?p\<lparr>cieloApiKey := [], cieloAccountName := [], cieloPropertyId := [],
                         error := (if truthy (JStr ''Network Error'') then JStr ''Network Error''
                                   else JStr ''Failed to create Cielo account'')\<rparr>)"
    by blast
  from vendor_errors_shown_inline
         [where err = ?net and m = "JStr ''Network Error''" and p = initial_page] m3
  have d: "fetchAccounts (Inl ?net) initial_page =
             (Inr (), initial_page\<lparr>error := (if truthy (JStr ''Network Error'') then JStr ''Network Error''
                                               else JStr ''Failed to load vendor accounts''),
                                     loading := False\<rparr>)"
    by blast
  show ?thesis unfolding a b c d using k m1 m2 by (simp add: initial_page_def)
qed

text \<open>
  The claim as written fails for a thrown \<open>null\<close>: reading its \<open>message\<close> throws inside
  the \<open>catch\<close> block, the function rejects with that TypeError, and \<open>error\<close> stays empty,
  so that nothing is shown. First the load, then a creation.
\<close>

theorem thrown_null_not_shown_counterexample:
  "fetchAccounts (Inl JNull) initial_page = (Inl TypeError, initial_page)
   \<and> fst (handleCieloCreate (\<lambda>payload. Inl JNull) (Inr (JArr []))
            (initial_page\<lparr>cieloApiKey := ''k-123''\<rparr>)) = Inl TypeError
   \<and> error (snd (handleCieloCreate (\<lambda>payload. Inl JNull) (Inr (JArr []))
            (initial_page\<lparr>cieloApiKey := ''k-123''\<rparr>))) = JNull"
  by (simp add: page_defs initial_page_def)

end
